theory Spec2Isabelle
  imports Main "HOL-Library.Monad_Syntax"
begin

section \<open>ResumeForge: the document mutation layer (schema.py, tools.py)\<close>

text \<open>
  The development embeds the tool functions of \<^verbatim>\<open>tools.py\<close> and the Pydantic models of
  \<^verbatim>\<open>schema.py\<close>.

  \<^item> A Python string is a \<open>string\<close>; a \<open>char\<close> stands for a code point below 256.
  \<^item> A Python integer is an \<open>int\<close>.
  \<^item> The persisted file \<^verbatim>\<open>resume.json\<close> is the state, called the store. It is held as a typed
    \<open>Resume\<close>: a document in which the five sections and every entity field are
    present with the types of \<^verbatim>\<open>schema.py\<close> (what the tools themselves write).
    Every tool takes the store and returns its reply together with the store afterwards.
  \<^item> A raised exception is \<open>Inl\<close> of a \<open>py_exn\<close>; a returned string is \<open>Inr\<close>.
  \<^item> \<^verbatim>\<open>Resume(**data)\<close> is a validator over untyped JSON values, run on the JSON
    rendering of the document before every write, as \<^verbatim>\<open>_save_resume\<close> does.
  \<^item> Outside the model: a file that is missing or unreadable, code points from 256 on, and
    the interpreter's cap on the number of digits \<^verbatim>\<open>int\<close> and \<^verbatim>\<open>str\<close> convert.
\<close>

subsection \<open>Python strings\<close>

datatype py_exn = ValueError | IndexError | ValidationError

text \<open>The apostrophe of the f-strings \<^verbatim>\<open>'{experience_id}'\<close>.\<close>

definition sq :: string where
  "sq = [CHR 0x27]"

text \<open>\<^verbatim>\<open>str.isspace\<close> on code points below 256: the characters \<^verbatim>\<open>str.strip()\<close> removes.\<close>

definition is_space :: "char \<Rightarrow> bool" where
  "is_space c = (of_char c \<in> set [9, 10, 11, 12, 13, 28, 29, 30, 31, 32, 133, 160 :: nat])"

text \<open>\<^verbatim>\<open>s.strip()\<close>\<close>

definition strip :: "string \<Rightarrow> string" where
  "strip s = rev (dropWhile is_space (rev (dropWhile is_space s)))"

text \<open>\<^verbatim>\<open>s.startswith(p)\<close>\<close>

definition startswith :: "string \<Rightarrow> string \<Rightarrow> bool" where
  "startswith s p = (take (length p) s = p)"

definition endswith :: "string \<Rightarrow> string \<Rightarrow> bool" where
  "endswith s p = startswith (rev s) (rev p)"

text \<open>\<^verbatim>\<open>s.split(sep)\<close> for a separator of one character: never an empty list.\<close>

fun py_split :: "char \<Rightarrow> string \<Rightarrow> string list" where
  "py_split sep [] = [[]]"
| "py_split sep (c # cs) =
     (if c = sep then [] # py_split sep cs
      else (c # hd (py_split sep cs)) # tl (py_split sep cs))"

text \<open>\<^verbatim>\<open>str(n)\<close> for an integer, as the f-strings \<^verbatim>\<open>{bullet_index}\<close> and
  \<^verbatim>\<open>exp_{max(...) + 1}\<close> print it.\<close>

function str_nat :: "nat \<Rightarrow> string" where
  "str_nat n =
     (if n < 10 then [char_of (48 + n)]
      else str_nat (n div 10) @ [char_of (48 + n mod 10)])"
  by pat_completeness auto
termination
  by (relation "measure (\<lambda>n. n)") auto

declare str_nat.simps [simp del]

definition str_int :: "int \<Rightarrow> string" where
  "str_int i = (if i < 0 then CHR ''-'' # str_nat (nat (- i)) else str_nat (nat i))"

text \<open>
  \<^verbatim>\<open>int(s)\<close> in base 10: whitespace around the text is skipped (ASCII whitespace, and
  the two non-ASCII spaces below 256), then an optional sign, then decimal digits
  which single underscores may separate. Anything else raises \<^verbatim>\<open>ValueError\<close>.
\<close>

definition is_int_space :: "char \<Rightarrow> bool" where
  "is_int_space c = (of_char c \<in> set [9, 10, 11, 12, 13, 32, 133, 160 :: nat])"

definition is_digit :: "char \<Rightarrow> bool" where
  "is_digit c = (48 \<le> (of_char c :: nat) \<and> (of_char c :: nat) \<le> 57)"

definition digit_val :: "char \<Rightarrow> nat" where
  "digit_val c = of_char c - 48"

fun digits_ok :: "string \<Rightarrow> bool" where
  "digits_ok [] = False"
| "digits_ok [c] = is_digit c"
| "digits_ok (c # d # r) =
     (is_digit c \<and> (if d = CHR ''_'' then digits_ok r else digits_ok (d # r)))"

definition digits_val :: "string \<Rightarrow> nat" where
  "digits_val u = foldl (\<lambda>a c. 10 * a + digit_val c) 0 (filter (\<lambda>c. c \<noteq> CHR ''_'') u)"

definition py_int :: "string \<Rightarrow> py_exn + int" where
  "py_int s =
     (let t = rev (dropWhile is_int_space (rev (dropWhile is_int_space s)));
          neg = (t \<noteq> [] \<and> hd t = CHR ''-'');
          u = (if t \<noteq> [] \<and> (hd t = CHR ''-'' \<or> hd t = CHR ''+'') then tl t else t)
      in if digits_ok u
         then Inr (if neg then - int (digits_val u) else int (digits_val u))
         else Inl ValueError)"

text \<open>\<^verbatim>\<open>max(xs, default=d)\<close>\<close>

definition py_max :: "int list \<Rightarrow> int \<Rightarrow> int" where
  "py_max xs d = (case xs of [] \<Rightarrow> d | x # r \<Rightarrow> foldl max x r)"

subsection \<open>JSON values and \<^verbatim>\<open>json.dumps(value, indent=2)\<close>\<close>

datatype json =
  JNull
| JBool bool
| JNum int
| JStr string
| JArr "json list"
| JObj "(string \<times> json) list"

definition hex_digit :: "nat \<Rightarrow> char" where
  "hex_digit d = (if d < 10 then char_of (48 + d) else char_of (87 + d))"

text \<open>The escapes of \<^verbatim>\<open>json.dumps\<close> with \<^verbatim>\<open>ensure_ascii\<close>: everything outside
  the printable ASCII range is written \<^verbatim>\<open>\uXXXX\<close>.\<close>

definition json_escape :: "char \<Rightarrow> string" where
  "json_escape c =
     (if c = CHR 0x22 then [CHR 0x5C, CHR 0x22]
      else if c = CHR 0x5C then [CHR 0x5C, CHR 0x5C]
      else if c = CHR 0x0A then [CHR 0x5C, CHR ''n'']
      else if c = CHR 0x0D then [CHR 0x5C, CHR ''r'']
      else if c = CHR 0x09 then [CHR 0x5C, CHR ''t'']
      else if c = CHR 0x0C then [CHR 0x5C, CHR ''f'']
      else if c = CHR 0x08 then [CHR 0x5C, CHR ''b'']
      else if 32 \<le> (of_char c :: nat) \<and> (of_char c :: nat) \<le> 126 then [c]
      else [CHR 0x5C, CHR ''u'', CHR ''0'', CHR ''0'',
            hex_digit (of_char c div 16), hex_digit (of_char c mod 16)])"

definition json_quote :: "string \<Rightarrow> string" where
  "json_quote s = [CHR 0x22] @ concat (map json_escape s) @ [CHR 0x22]"

fun intercalate :: "'a list \<Rightarrow> 'a list list \<Rightarrow> 'a list" where
  "intercalate sep [] = []"
| "intercalate sep [x] = x"
| "intercalate sep (x # y # ys) = x @ sep @ intercalate sep (y # ys)"

definition newline_indent :: "nat \<Rightarrow> string" where
  "newline_indent n = CHR 0x0A # replicate (2 * n) CHR '' ''"

fun dumps_at :: "nat \<Rightarrow> json \<Rightarrow> string" where
  "dumps_at n JNull = ''null''"
| "dumps_at n (JBool b) = (if b then ''true'' else ''false'')"
| "dumps_at n (JNum i) = str_int i"
| "dumps_at n (JStr s) = json_quote s"
| "dumps_at n (JArr xs) =
     (if xs = [] then ''[]''
      else ''['' @ newline_indent (Suc n)
           @ intercalate ('','' @ newline_indent (Suc n)) (map (dumps_at (Suc n)) xs)
           @ newline_indent n @ '']'')"
| "dumps_at n (JObj kvs) =
     (if kvs = [] then ''{}''
      else ''{'' @ newline_indent (Suc n)
           @ intercalate ('','' @ newline_indent (Suc n))
               (map (\<lambda>(k, v). json_quote k @ '': '' @ dumps_at (Suc n) v) kvs)
           @ newline_indent n @ ''}'')"

definition json_dumps :: "json \<Rightarrow> string" where
  "json_dumps j = dumps_at 0 j"

subsection \<open>schema.py: the models and their validation\<close>

record Experience =
  exp_id :: string
  company :: string
  role :: string
  dates :: string
  bullets :: "string list"

record Project =
  proj_id :: string
  name :: string
  description :: string

record Education =
  edu_id :: string
  degree :: string
  institution :: string
  year :: string

record Resume =
  summary :: string
  experiences :: "Experience list"
  skills :: "string list"
  projects :: "Project list"
  education :: "Education list"

text \<open>The dictionaries the tools build and \<^verbatim>\<open>json.dump\<close> writes, keys in the order
  of the source.\<close>

definition Experience_json :: "Experience \<Rightarrow> json" where
  "Experience_json e =
     JObj [(''id'', JStr (exp_id e)), (''company'', JStr (company e)),
           (''role'', JStr (role e)), (''dates'', JStr (dates e)),
           (''bullets'', JArr (map JStr (bullets e)))]"

definition Project_json :: "Project \<Rightarrow> json" where
  "Project_json p =
     JObj [(''id'', JStr (proj_id p)), (''name'', JStr (name p)),
           (''description'', JStr (description p))]"

definition Education_json :: "Education \<Rightarrow> json" where
  "Education_json e =
     JObj [(''id'', JStr (edu_id e)), (''degree'', JStr (degree e)),
           (''institution'', JStr (institution e)), (''year'', JStr (year e))]"

definition Resume_json :: "Resume \<Rightarrow> json" where
  "Resume_json r =
     JObj [(''summary'', JStr (summary r)),
           (''experiences'', JArr (map Experience_json (experiences r))),
           (''skills'', JArr (map JStr (skills r))),
           (''projects'', JArr (map Project_json (projects r))),
           (''education'', JArr (map Education_json (education r)))]"

text \<open>
  The models are validated as Pydantic 2 does (the version \<^verbatim>\<open>google-adk\<close> builds on).
  A field declared \<^verbatim>\<open>str = Field(...)\<close> is required and must hold a string; the
  declaration carries no length constraint. A field declared
  \<^verbatim>\<open>List[T] = Field(default_factory=list)\<close> may be absent (then the empty list) and
  must otherwise hold a list whose every element validates as \<open>T\<close>. Keys the model
  does not declare are ignored.
\<close>

definition as_str :: "json \<Rightarrow> string option" where
  "as_str j = (case j of JStr s \<Rightarrow> Some s | _ \<Rightarrow> None)"

definition required_str :: "(string \<times> json) list \<Rightarrow> string \<Rightarrow> string option" where
  "required_str kvs k = (case map_of kvs k of None \<Rightarrow> None | Some j \<Rightarrow> as_str j)"

definition default_list ::
  "(json \<Rightarrow> 'a option) \<Rightarrow> (string \<times> json) list \<Rightarrow> string \<Rightarrow> 'a list option" where
  "default_list f kvs k =
     (case map_of kvs k of
        None \<Rightarrow> Some []
      | Some (JArr xs) \<Rightarrow> those (map f xs)
      | Some _ \<Rightarrow> None)"

definition Experience_validate :: "json \<Rightarrow> Experience option" where
  "Experience_validate j =
     (case j of
        JObj kvs \<Rightarrow> do {
          i \<leftarrow> required_str kvs ''id'';
          c \<leftarrow> required_str kvs ''company'';
          r \<leftarrow> required_str kvs ''role'';
          d \<leftarrow> required_str kvs ''dates'';
          b \<leftarrow> default_list as_str kvs ''bullets'';
          Some \<lparr>exp_id = i, company = c, role = r, dates = d, bullets = b\<rparr> }
      | _ \<Rightarrow> None)"

definition Project_validate :: "json \<Rightarrow> Project option" where
  "Project_validate j =
     (case j of
        JObj kvs \<Rightarrow> do {
          i \<leftarrow> required_str kvs ''id'';
          n \<leftarrow> required_str kvs ''name'';
          d \<leftarrow> required_str kvs ''description'';
          Some \<lparr>proj_id = i, name = n, description = d\<rparr> }
      | _ \<Rightarrow> None)"

definition Education_validate :: "json \<Rightarrow> Education option" where
  "Education_validate j =
     (case j of
        JObj kvs \<Rightarrow> do {
          i \<leftarrow> required_str kvs ''id'';
          g \<leftarrow> required_str kvs ''degree'';
          n \<leftarrow> required_str kvs ''institution'';
          y \<leftarrow> required_str kvs ''year'';
          Some \<lparr>edu_id = i, degree = g, institution = n, year = y\<rparr> }
      | _ \<Rightarrow> None)"

text \<open>\<^verbatim>\<open>Resume(**data)\<close>: \<open>None\<close> is the raised validation error.\<close>

definition Resume_validate :: "json \<Rightarrow> Resume option" where
  "Resume_validate j =
     (case j of
        JObj kvs \<Rightarrow> do {
          s \<leftarrow> required_str kvs ''summary'';
          ex \<leftarrow> default_list Experience_validate kvs ''experiences'';
          sk \<leftarrow> default_list as_str kvs ''skills'';
          pr \<leftarrow> default_list Project_validate kvs ''projects'';
          ed \<leftarrow> default_list Education_validate kvs ''education'';
          Some \<lparr>summary = s, experiences = ex, skills = sk, projects = pr, education = ed\<rparr> }
      | _ \<Rightarrow> None)"

subsection \<open>tools.py: loading and saving\<close>

type_synonym reply = "py_exn + string"

text \<open>\<^verbatim>\<open>_load_resume\<close>: the document read from the file.\<close>

definition load_resume :: "Resume \<Rightarrow> Resume" where
  "load_resume store = store"

text \<open>\<^verbatim>\<open>_save_resume\<close>: validation comes first; a validation error leaves the store as
  it was.\<close>

definition save_resume :: "Resume \<Rightarrow> Resume \<Rightarrow> reply \<times> Resume" where
  "save_resume data store =
     (case Resume_validate (Resume_json data) of
        None \<Rightarrow> (Inl ValidationError, store)
      | Some _ \<Rightarrow> (Inr ''Resume saved successfully.'', data))"

text \<open>The loops \<^verbatim>\<open>for x in xs: if x["id"] == key: ... return\<close> act on the first
  match; \<open>first_index\<close> is its position.\<close>

fun first_index :: "('a \<Rightarrow> bool) \<Rightarrow> 'a list \<Rightarrow> nat option" where
  "first_index P [] = None"
| "first_index P (x # xs) = (if P x then Some 0 else map_option Suc (first_index P xs))"

text \<open>\<^verbatim>\<open>if value:\<close> on an \<^verbatim>\<open>Optional[str]\<close>: neither \<^verbatim>\<open>None\<close> nor empty.\<close>

text \<open>
  \<^verbatim>\<open>_save_resume\<close> on the dictionary itself, whatever its values: a dictionary the
  validator rejects raises and nothing is written; a dictionary it accepts is written,
  and the store holds its typed reading. \<open>save_resume\<close> is this function on the
  dictionary of a typed document (lemma \<open>save_resume_json\<close>).
\<close>

definition save_json :: "json \<Rightarrow> Resume \<Rightarrow> reply \<times> Resume" where
  "save_json data store =
     (case Resume_validate data of
        None \<Rightarrow> (Inl ValidationError, store)
      | Some written \<Rightarrow> (Inr ''Resume saved successfully.'', written))"

definition truthy :: "string option \<Rightarrow> bool" where
  "truthy v = (case v of None \<Rightarrow> False | Some s \<Rightarrow> s \<noteq> [])"

definition not_found :: "string \<Rightarrow> string \<Rightarrow> string" where
  "not_found what key = ''Error: '' @ what @ '' with ID '' @ sq @ key @ sq @ '' not found.''"

text \<open>\<^verbatim>\<open>int(e["id"].split("_")[1])\<close>\<close>

definition id_number :: "string \<Rightarrow> py_exn + int" where
  "id_number i =
     (case py_split CHR ''_'' i of
        a # b # r \<Rightarrow> py_int b
      | _ \<Rightarrow> Inl IndexError)"

text \<open>\<^verbatim>\<open>[int(e["id"].split("_")[1]) for e in entities if e["id"].startswith(prefix)]\<close>,
  over the ids of the entities in order; the first id that does not convert raises.\<close>

fun existing_ids :: "string \<Rightarrow> string list \<Rightarrow> py_exn + int list" where
  "existing_ids prefix [] = Inr []"
| "existing_ids prefix (i # rest) =
     (if startswith i prefix
      then (case id_number i of
              Inl e \<Rightarrow> Inl e
            | Inr n \<Rightarrow> (case existing_ids prefix rest of
                          Inl e \<Rightarrow> Inl e
                        | Inr ns \<Rightarrow> Inr (n # ns)))
      else existing_ids prefix rest)"

subsection \<open>tools.py: read tools\<close>

definition get_resume :: "Resume \<Rightarrow> Resume" where
  "get_resume store = load_resume store"

definition valid_sections :: "string list" where
  "valid_sections = [''summary'', ''experiences'', ''skills'', ''projects'', ''education'']"

text \<open>The list as the f-string prints it.\<close>

definition valid_sections_repr :: string where
  "valid_sections_repr =
     ''['' @ intercalate '', '' (map (\<lambda>s. sq @ s @ sq) valid_sections) @ '']''"

definition get_section :: "string \<Rightarrow> Resume \<Rightarrow> string" where
  "get_section section_name store =
     (let data = load_resume store in
      if section_name \<notin> set valid_sections
      then ''Error: Invalid section '' @ sq @ section_name @ sq @ ''. Valid sections: ''
           @ valid_sections_repr
      else json_dumps
        (if section_name = ''summary'' then JStr (summary data)
         else if section_name = ''experiences'' then JArr (map Experience_json (experiences data))
         else if section_name = ''skills'' then JArr (map JStr (skills data))
         else if section_name = ''projects'' then JArr (map Project_json (projects data))
         else JArr (map Education_json (education data))))"

definition get_summary :: "Resume \<Rightarrow> string" where
  "get_summary store = summary (load_resume store)"

definition get_experiences :: "Resume \<Rightarrow> string" where
  "get_experiences store = json_dumps (JArr (map Experience_json (experiences (load_resume store))))"

definition get_experience_by_id :: "string \<Rightarrow> Resume \<Rightarrow> string" where
  "get_experience_by_id experience_id store =
     (let data = load_resume store in
      case first_index (\<lambda>e. exp_id e = experience_id) (experiences data) of
        Some k \<Rightarrow> json_dumps (Experience_json (experiences data ! k))
      | None \<Rightarrow> not_found ''Experience'' experience_id)"

definition get_skills :: "Resume \<Rightarrow> string" where
  "get_skills store = json_dumps (JArr (map JStr (skills (load_resume store))))"

definition get_projects :: "Resume \<Rightarrow> string" where
  "get_projects store = json_dumps (JArr (map Project_json (projects (load_resume store))))"

definition get_project_by_id :: "string \<Rightarrow> Resume \<Rightarrow> string" where
  "get_project_by_id project_id store =
     (let data = load_resume store in
      case first_index (\<lambda>p. proj_id p = project_id) (projects data) of
        Some k \<Rightarrow> json_dumps (Project_json (projects data ! k))
      | None \<Rightarrow> not_found ''Project'' project_id)"

definition get_education :: "Resume \<Rightarrow> string" where
  "get_education store = json_dumps (JArr (map Education_json (education (load_resume store))))"

definition get_education_by_id :: "string \<Rightarrow> Resume \<Rightarrow> string" where
  "get_education_by_id education_id store =
     (let data = load_resume store in
      case first_index (\<lambda>e. edu_id e = education_id) (education data) of
        Some k \<Rightarrow> json_dumps (Education_json (education data ! k))
      | None \<Rightarrow> not_found ''Education'' education_id)"

subsection \<open>tools.py: summary\<close>

definition update_summary :: "string \<Rightarrow> Resume \<Rightarrow> reply \<times> Resume" where
  "update_summary new_summary store =
     (if new_summary = [] \<or> strip new_summary = []
      then (Inr ''Error: Summary cannot be empty.'', store)
      else let data = load_resume store;
               data = data\<lparr>summary := strip new_summary\<rparr>
           in save_resume data store)"

subsection \<open>tools.py: experiences and bullets\<close>

definition update_experience ::
  "string \<Rightarrow> string option \<Rightarrow> string option \<Rightarrow> string option \<Rightarrow> Resume \<Rightarrow> reply \<times> Resume" where
  "update_experience experience_id company' role' dates' store =
     (let data = load_resume store in
      case first_index (\<lambda>e. exp_id e = experience_id) (experiences data) of
        Some k \<Rightarrow>
          (let exp = experiences data ! k;
               exp = (if truthy company' then exp\<lparr>company := the company'\<rparr> else exp);
               exp = (if truthy role' then exp\<lparr>role := the role'\<rparr> else exp);
               exp = (if truthy dates' then exp\<lparr>dates := the dates'\<rparr> else exp);
               data = data\<lparr>experiences := (experiences data)[k := exp]\<rparr>
           in save_resume data store)
      | None \<Rightarrow> (Inr (not_found ''Experience'' experience_id), store))"

definition add_experience ::
  "string \<Rightarrow> string \<Rightarrow> string \<Rightarrow> string list option \<Rightarrow> Resume \<Rightarrow> reply \<times> Resume" where
  "add_experience company' role' dates' bullets' store =
     (let data = load_resume store;
          exps = experiences data
      in case existing_ids ''exp_'' (map exp_id exps) of
           Inl e \<Rightarrow> (Inl e, store)
         | Inr ids \<Rightarrow>
             (let new_id = ''exp_'' @ str_int (py_max ids 0 + 1);
                  new_exp = \<lparr>exp_id = new_id, company = company', role = role',
                             dates = dates',
                             bullets = (case bullets' of None \<Rightarrow> [] | Some b \<Rightarrow> b)\<rparr>;
                  data = data\<lparr>experiences := new_exp # exps\<rparr>
              in case save_resume data store of
                   (Inl e, store') \<Rightarrow> (Inl e, store')
                 | (Inr saved, store') \<Rightarrow>
                     (Inr (''Experience added successfully with ID: '' @ new_id), store')))"

text \<open>
  \<^verbatim>\<open>add_experience\<close> with the bullets as its signature has them,
  \<^verbatim>\<open>Optional[list]\<close>: a list of any JSON values. The dictionary is built as the source
  builds it and passed to \<^verbatim>\<open>_save_resume\<close>. On a list of strings it is
  \<open>add_experience\<close> (lemma \<open>add_experience_typed_bullets\<close>).
\<close>

definition add_experience_any_bullets ::
  "string \<Rightarrow> string \<Rightarrow> string \<Rightarrow> json list option \<Rightarrow> Resume \<Rightarrow> reply \<times> Resume" where
  "add_experience_any_bullets company' role' dates' bullets' store =
     (let data = load_resume store;
          exps = experiences data
      in case existing_ids ''exp_'' (map exp_id exps) of
           Inl e \<Rightarrow> (Inl e, store)
         | Inr ids \<Rightarrow>
             (let new_id = ''exp_'' @ str_int (py_max ids 0 + 1);
                  new_exp = JObj [(''id'', JStr new_id), (''company'', JStr company'),
                                  (''role'', JStr role'), (''dates'', JStr dates'),
                                  (''bullets'',
                                   JArr (case bullets' of None \<Rightarrow> [] | Some b \<Rightarrow> b))];
                  data = JObj [(''summary'', JStr (summary data)),
                               (''experiences'', JArr (new_exp # map Experience_json exps)),
                               (''skills'', JArr (map JStr (skills data))),
                               (''projects'', JArr (map Project_json (projects data))),
                               (''education'', JArr (map Education_json (education data)))]
              in case save_json data store of
                   (Inl e, store') \<Rightarrow> (Inl e, store')
                 | (Inr saved, store') \<Rightarrow>
                     (Inr (''Experience added successfully with ID: '' @ new_id), store')))"

definition remove_experience :: "string \<Rightarrow> Resume \<Rightarrow> reply \<times> Resume" where
  "remove_experience experience_id store =
     (let data = load_resume store;
          exps = experiences data;
          original_len = length exps;
          data = data\<lparr>experiences := filter (\<lambda>e. exp_id e \<noteq> experience_id) exps\<rparr>
      in if length (experiences data) = original_len
         then (Inr (not_found ''Experience'' experience_id), store)
         else save_resume data store)"

definition add_bullet :: "string \<Rightarrow> string \<Rightarrow> Resume \<Rightarrow> reply \<times> Resume" where
  "add_bullet experience_id bullet store =
     (if bullet = [] \<or> strip bullet = []
      then (Inr ''Error: Bullet text cannot be empty.'', store)
      else let data = load_resume store in
        case first_index (\<lambda>e. exp_id e = experience_id) (experiences data) of
          Some k \<Rightarrow>
            (let exp = experiences data ! k;
                 exp = exp\<lparr>bullets := bullets exp @ [strip bullet]\<rparr>;
                 data = data\<lparr>experiences := (experiences data)[k := exp]\<rparr>
             in save_resume data store)
        | None \<Rightarrow> (Inr (not_found ''Experience'' experience_id), store))"

definition out_of_range :: "int \<Rightarrow> nat \<Rightarrow> string" where
  "out_of_range bullet_index n =
     ''Error: Bullet index '' @ str_int bullet_index @ '' out of range. Experience has ''
     @ str_int (int n) @ '' bullets.''"

definition update_bullet :: "string \<Rightarrow> int \<Rightarrow> string \<Rightarrow> Resume \<Rightarrow> reply \<times> Resume" where
  "update_bullet experience_id bullet_index new_bullet store =
     (if new_bullet = [] \<or> strip new_bullet = []
      then (Inr ''Error: Bullet text cannot be empty.'', store)
      else let data = load_resume store in
        case first_index (\<lambda>e. exp_id e = experience_id) (experiences data) of
          Some k \<Rightarrow>
            (let exp = experiences data ! k in
             if 0 \<le> bullet_index \<and> bullet_index < int (length (bullets exp))
             then (let exp = exp\<lparr>bullets := (bullets exp)[nat bullet_index := strip new_bullet]\<rparr>;
                       data = data\<lparr>experiences := (experiences data)[k := exp]\<rparr>
                   in save_resume data store)
             else (Inr (out_of_range bullet_index (length (bullets exp))), store))
        | None \<Rightarrow> (Inr (not_found ''Experience'' experience_id), store))"

definition bullet_removed :: "string \<Rightarrow> string" where
  "bullet_removed removed =
     (if length removed > 50
      then ''Bullet removed: '' @ sq @ take 50 removed @ ''...'' @ sq
      else ''Bullet removed: '' @ sq @ removed @ sq)"

definition remove_bullet :: "string \<Rightarrow> int \<Rightarrow> Resume \<Rightarrow> reply \<times> Resume" where
  "remove_bullet experience_id bullet_index store =
     (let data = load_resume store in
      case first_index (\<lambda>e. exp_id e = experience_id) (experiences data) of
        Some k \<Rightarrow>
          (let exp = experiences data ! k in
           if 0 \<le> bullet_index \<and> bullet_index < int (length (bullets exp))
           then (let removed = bullets exp ! nat bullet_index;
                     exp = exp\<lparr>bullets := take (nat bullet_index) (bullets exp)
                                           @ drop (Suc (nat bullet_index)) (bullets exp)\<rparr>;
                     data = data\<lparr>experiences := (experiences data)[k := exp]\<rparr>
                 in case save_resume data store of
                      (Inl e, store') \<Rightarrow> (Inl e, store')
                    | (Inr saved, store') \<Rightarrow> (Inr (bullet_removed removed), store'))
           else (Inr (out_of_range bullet_index (length (bullets exp))), store))
      | None \<Rightarrow> (Inr (not_found ''Experience'' experience_id), store))"

subsection \<open>tools.py: skills\<close>

definition add_skill :: "string \<Rightarrow> Resume \<Rightarrow> reply \<times> Resume" where
  "add_skill skill store =
     (if skill = [] \<or> strip skill = []
      then (Inr ''Error: Skill cannot be empty.'', store)
      else let data = load_resume store;
               skill = strip skill
           in if skill \<in> set (skills data)
              then (Inr (''Skill '' @ sq @ skill @ sq @ '' already exists.''), store)
              else save_resume (data\<lparr>skills := skills data @ [skill]\<rparr>) store)"

definition remove_skill :: "string \<Rightarrow> Resume \<Rightarrow> reply \<times> Resume" where
  "remove_skill skill store =
     (let data = load_resume store;
          skill = strip skill
      in if skill \<notin> set (skills data)
         then (Inr (''Error: Skill '' @ sq @ skill @ sq @ '' not found.''), store)
         else save_resume (data\<lparr>skills := remove1 skill (skills data)\<rparr>) store)"

subsection \<open>tools.py: projects\<close>

definition add_project :: "string \<Rightarrow> string \<Rightarrow> Resume \<Rightarrow> reply \<times> Resume" where
  "add_project name' description' store =
     (if name' = [] \<or> strip name' = []
      then (Inr ''Error: Project name cannot be empty.'', store)
      else if description' = [] \<or> strip description' = []
      then (Inr ''Error: Project description cannot be empty.'', store)
      else let data = load_resume store;
               projs = projects data
           in case existing_ids ''proj_'' (map proj_id projs) of
                Inl e \<Rightarrow> (Inl e, store)
              | Inr ids \<Rightarrow>
                  (let new_id = ''proj_'' @ str_int (py_max ids 0 + 1);
                       new_proj = \<lparr>proj_id = new_id, name = strip name',
                                   description = strip description'\<rparr>;
                       data = data\<lparr>projects := projs @ [new_proj]\<rparr>
                   in case save_resume data store of
                        (Inl e, store') \<Rightarrow> (Inl e, store')
                      | (Inr saved, store') \<Rightarrow>
                          (Inr (''Project added successfully with ID: '' @ new_id), store')))"

definition update_project ::
  "string \<Rightarrow> string option \<Rightarrow> string option \<Rightarrow> Resume \<Rightarrow> reply \<times> Resume" where
  "update_project project_id name' description' store =
     (let data = load_resume store in
      case first_index (\<lambda>p. proj_id p = project_id) (projects data) of
        Some k \<Rightarrow>
          (let proj = projects data ! k;
               proj = (if truthy name' then proj\<lparr>name := strip (the name')\<rparr> else proj);
               proj = (if truthy description'
                       then proj\<lparr>description := strip (the description')\<rparr> else proj);
               data = data\<lparr>projects := (projects data)[k := proj]\<rparr>
           in save_resume data store)
      | None \<Rightarrow> (Inr (not_found ''Project'' project_id), store))"

definition remove_project :: "string \<Rightarrow> Resume \<Rightarrow> reply \<times> Resume" where
  "remove_project project_id store =
     (let data = load_resume store;
          projs = projects data;
          original_len = length projs;
          data = data\<lparr>projects := filter (\<lambda>p. proj_id p \<noteq> project_id) projs\<rparr>
      in if length (projects data) = original_len
         then (Inr (not_found ''Project'' project_id), store)
         else save_resume data store)"

subsection \<open>tools.py: education\<close>

definition update_education ::
  "string \<Rightarrow> string option \<Rightarrow> string option \<Rightarrow> string option \<Rightarrow> Resume \<Rightarrow> reply \<times> Resume" where
  "update_education education_id degree' institution' year' store =
     (let data = load_resume store in
      case first_index (\<lambda>e. edu_id e = education_id) (education data) of
        Some k \<Rightarrow>
          (let edu = education data ! k;
               edu = (if truthy degree' then edu\<lparr>degree := strip (the degree')\<rparr> else edu);
               edu = (if truthy institution'
                      then edu\<lparr>institution := strip (the institution')\<rparr> else edu);
               edu = (if truthy year' then edu\<lparr>year := strip (the year')\<rparr> else edu);
               data = data\<lparr>education := (education data)[k := edu]\<rparr>
           in save_resume data store)
      | None \<Rightarrow> (Inr (not_found ''Education'' education_id), store))"

definition add_education :: "string \<Rightarrow> string \<Rightarrow> string \<Rightarrow> Resume \<Rightarrow> reply \<times> Resume" where
  "add_education degree' institution' year' store =
     (if degree' = [] \<or> strip degree' = []
      then (Inr ''Error: Degree cannot be empty.'', store)
      else if institution' = [] \<or> strip institution' = []
      then (Inr ''Error: Institution cannot be empty.'', store)
      else if year' = [] \<or> strip year' = []
      then (Inr ''Error: Year cannot be empty.'', store)
      else let data = load_resume store;
               edus = education data
           in case existing_ids ''edu_'' (map edu_id edus) of
                Inl e \<Rightarrow> (Inl e, store)
              | Inr ids \<Rightarrow>
                  (let new_id = ''edu_'' @ str_int (py_max ids 0 + 1);
                       new_edu = \<lparr>edu_id = new_id, degree = strip degree',
                                  institution = strip institution', year = strip year'\<rparr>;
                       data = data\<lparr>education := edus @ [new_edu]\<rparr>
                   in case save_resume data store of
                        (Inl e, store') \<Rightarrow> (Inl e, store')
                      | (Inr saved, store') \<Rightarrow>
                          (Inr (''Education added successfully with ID: '' @ new_id), store')))"

definition remove_education :: "string \<Rightarrow> Resume \<Rightarrow> reply \<times> Resume" where
  "remove_education education_id store =
     (let data = load_resume store;
          edus = education data;
          original_len = length edus;
          data = data\<lparr>education := filter (\<lambda>e. edu_id e \<noteq> education_id) edus\<rparr>
      in if length (education data) = original_len
         then (Inr (not_found ''Education'' education_id), store)
         else save_resume data store)"

subsection \<open>Notions used to state the properties\<close>

text \<open>
  The strings the tools return on a failure: every \<^verbatim>\<open>return\<close> of an error in
  \<^verbatim>\<open>tools.py\<close> starts with \<^verbatim>\<open>Error:\<close>, except the duplicate report of
  \<^verbatim>\<open>add_skill\<close>, which reads \<^verbatim>\<open>Skill '...' already exists.\<close>
\<close>

definition is_error_string :: "string \<Rightarrow> bool" where
  "is_error_string msg =
     (startswith msg ''Error:''
      \<or> (startswith msg (''Skill '' @ sq) \<and> endswith msg (sq @ '' already exists.'')))"

text \<open>A tool's result leaves the store alone whenever its reply is an error string.\<close>

definition unchanged_on_error :: "reply \<times> Resume \<Rightarrow> Resume \<Rightarrow> bool" where
  "unchanged_on_error result store =
     (case fst result of
        Inr msg \<Rightarrow> is_error_string msg \<longrightarrow> snd result = store
      | Inl e \<Rightarrow> True)"

text \<open>
  The numbers \<^verbatim>\<open>int(e["id"].split("_")[1])\<close> reads off the ids that start with the
  prefix, in the order of the ids: \<open>ns\<close> lists them exactly when every such id converts.
\<close>

definition numeric_suffixes :: "string \<Rightarrow> string list \<Rightarrow> int list \<Rightarrow> bool" where
  "numeric_suffixes prefix ids ns =
     (map id_number (filter (\<lambda>i. startswith i prefix) ids) = map Inr ns)"

text \<open>The id the specification names: the prefix, then one plus the largest numeric
  suffix, or 1 when no id matches the prefix.\<close>

definition spec_next_id :: "string \<Rightarrow> int list \<Rightarrow> string" where
  "spec_next_id prefix ns = prefix @ str_int (if ns = [] then 1 else Max (set ns) + 1)"

text \<open>
  What \<^verbatim>\<open>schema.py\<close> declares, read as a predicate on JSON values: the required string
  fields and the lists that may be absent. Nothing in the declarations bounds the length of
  a string.
\<close>

definition is_string :: "json \<Rightarrow> bool" where
  "is_string j = (case j of JStr s \<Rightarrow> True | _ \<Rightarrow> False)"

definition has_string :: "(string \<times> json) list \<Rightarrow> string \<Rightarrow> bool" where
  "has_string kvs k = (case map_of kvs k of Some j \<Rightarrow> is_string j | None \<Rightarrow> False)"

definition absent_or_list :: "(json \<Rightarrow> bool) \<Rightarrow> (string \<times> json) list \<Rightarrow> string \<Rightarrow> bool" where
  "absent_or_list ok kvs k =
     (case map_of kvs k of
        None \<Rightarrow> True
      | Some (JArr xs) \<Rightarrow> list_all ok xs
      | Some _ \<Rightarrow> False)"

definition Experience_shape :: "json \<Rightarrow> bool" where
  "Experience_shape j =
     (case j of
        JObj kvs \<Rightarrow> has_string kvs ''id'' \<and> has_string kvs ''company''
          \<and> has_string kvs ''role'' \<and> has_string kvs ''dates''
          \<and> absent_or_list is_string kvs ''bullets''
      | _ \<Rightarrow> False)"

definition Project_shape :: "json \<Rightarrow> bool" where
  "Project_shape j =
     (case j of
        JObj kvs \<Rightarrow> has_string kvs ''id'' \<and> has_string kvs ''name''
          \<and> has_string kvs ''description''
      | _ \<Rightarrow> False)"

definition Education_shape :: "json \<Rightarrow> bool" where
  "Education_shape j =
     (case j of
        JObj kvs \<Rightarrow> has_string kvs ''id'' \<and> has_string kvs ''degree''
          \<and> has_string kvs ''institution'' \<and> has_string kvs ''year''
      | _ \<Rightarrow> False)"

definition Resume_shape :: "json \<Rightarrow> bool" where
  "Resume_shape j =
     (case j of
        JObj kvs \<Rightarrow> has_string kvs ''summary''
          \<and> absent_or_list Experience_shape kvs ''experiences''
          \<and> absent_or_list is_string kvs ''skills''
          \<and> absent_or_list Project_shape kvs ''projects''
          \<and> absent_or_list Education_shape kvs ''education''
      | _ \<Rightarrow> False)"

text \<open>A tool's result does not make a non-empty summary empty.\<close>

definition keeps_summary :: "reply \<times> Resume \<Rightarrow> Resume \<Rightarrow> bool" where
  "keeps_summary result store = (summary store \<noteq> [] \<longrightarrow> summary (snd result) \<noteq> [])"

text \<open>A document to run the tools on: two experiences with ids \<^verbatim>\<open>exp_1\<close> and
  \<^verbatim>\<open>exp_3\<close>, the first with three bullets, one skill and one project.\<close>

definition sample_resume :: Resume where
  "sample_resume =
     \<lparr>summary = ''Engineer'',
      experiences =
        [\<lparr>exp_id = ''exp_1'', company = ''Acme'', role = ''Developer'', dates = ''2020-2022'',
          bullets = [''Built the billing service'', ''Led a team of four'', ''Cut costs'']\<rparr>,
         \<lparr>exp_id = ''exp_3'', company = ''Initech'', role = ''Intern'', dates = ''2019'',
          bullets = []\<rparr>],
      skills = [''Python''],
      projects = [\<lparr>proj_id = ''proj_1'', name = ''Forge'', description = ''A resume editor''\<rparr>],
      education = []\<rparr>"

text \<open>The same document with one skill listed twice; the validator accepts it.\<close>

definition duplicate_skills_resume :: Resume where
  "duplicate_skills_resume =
     \<lparr>summary = ''Engineer'',
      experiences =
        [\<lparr>exp_id = ''exp_1'', company = ''Acme'', role = ''Developer'', dates = ''2020-2022'',
          bullets = [''Built the billing service'', ''Led a team of four'', ''Cut costs'']\<rparr>,
         \<lparr>exp_id = ''exp_3'', company = ''Initech'', role = ''Intern'', dates = ''2019'',
          bullets = []\<rparr>],
      skills = [''Go'', ''Go''],
      projects = [\<lparr>proj_id = ''proj_1'', name = ''Forge'', description = ''A resume editor''\<rparr>],
      education = []\<rparr>"

text \<open>A document with four skills, one of them listed twice.\<close>

definition several_skills_resume :: Resume where
  "several_skills_resume =
     \<lparr>summary = ''Engineer'', experiences = [],
      skills = [''Go'', ''Python'', ''Rust'', ''Python''],
      projects = [], education = []\<rparr>"

section \<open>Properties\<close>

subsection \<open>Validation and saving\<close>

lemma those_map_roundtrip:
  assumes "\<And>x. f (g x) = Some x"
  shows "those (map (f \<circ> g) xs) = Some xs"
  by (induction xs) (simp_all add: assms)

lemma those_map_as_str: "those (map (as_str \<circ> JStr) xs) = Some xs"
  by (rule those_map_roundtrip) (simp add: as_str_def)

lemma Experience_roundtrip: "Experience_validate (Experience_json e) = Some e"
  by (simp add: Experience_validate_def Experience_json_def required_str_def default_list_def
      as_str_def those_map_as_str)

lemma Project_roundtrip: "Project_validate (Project_json p) = Some p"
  by (simp add: Project_validate_def Project_json_def required_str_def as_str_def)

lemma Education_roundtrip: "Education_validate (Education_json e) = Some e"
  by (simp add: Education_validate_def Education_json_def required_str_def as_str_def)

text \<open>Every typed document passes the validator, so \<open>save_resume\<close> always writes.\<close>

lemma Resume_roundtrip: "Resume_validate (Resume_json d) = Some d"
  by (simp add: Resume_validate_def Resume_json_def required_str_def default_list_def
      as_str_def those_map_as_str those_map_roundtrip [of Experience_validate]
      those_map_roundtrip [of Project_validate] those_map_roundtrip [of Education_validate]
      Experience_roundtrip Project_roundtrip Education_roundtrip)

lemma save_resume_ok: "save_resume data store = (Inr ''Resume saved successfully.'', data)"
  by (simp add: save_resume_def Resume_roundtrip)

subsection \<open>The first match of a loop\<close>

text \<open>\<open>first_index\<close> finds the first element that passes the test, as the loops do.\<close>

lemma first_index_None: "first_index P xs = None \<longleftrightarrow> (\<forall>x \<in> set xs. \<not> P x)"
  by (induction xs) auto

lemma first_index_Some:
  "first_index P xs = Some k \<Longrightarrow> k < length xs \<and> P (xs ! k) \<and> (\<forall>j < k. \<not> P (xs ! j))"
proof (induction xs arbitrary: k)
  case Nil
  then show ?case by simp
next
  case (Cons x xs)
  show ?case
  proof (cases "P x")
    case True
    with Cons.prems show ?thesis by simp
  next
    case False
    with Cons.prems obtain k' where k: "first_index P xs = Some k'" "k = Suc k'"
      by auto
    from Cons.IH [OF k(1)] False k(2) show ?thesis
      by (auto simp: less_Suc_eq_0_disj)
  qed
qed

subsection \<open>Trimming\<close>

lemma strip_pad:
  assumes a: "list_all is_space a" and b: "list_all is_space b"
  shows "strip (a @ s @ b) = strip s"
proof -
  have 1: "dropWhile is_space (a @ s @ b) = dropWhile is_space (s @ b)"
    using a by (simp add: dropWhile_append2 list_all_iff)
  have 2: "dropWhile is_space (rev (dropWhile is_space (s @ b)))
         = dropWhile is_space (rev (dropWhile is_space s))"
  proof (cases "list_all is_space s")
    case True
    then have e: "dropWhile is_space (s @ b) = []" "dropWhile is_space s = []"
      using b by (auto simp: list_all_iff)
    show ?thesis unfolding e by (rule refl)
  next
    case False
    then obtain x where "x \<in> set s" "\<not> is_space x"
      by (auto simp: list_all_iff)
    then have e: "dropWhile is_space (s @ b) = dropWhile is_space s @ b"
      by (rule dropWhile_append1)
    have "dropWhile is_space (rev b @ rev (dropWhile is_space s))
        = dropWhile is_space (rev (dropWhile is_space s))"
      using b by (intro dropWhile_append2) (simp add: list_all_iff)
    then show ?thesis unfolding e by simp
  qed
  show ?thesis
    by (simp add: strip_def 1 2)
qed

subsection \<open>The maximum of the existing numbers\<close>

lemma py_max_Max: "py_max ns d = (if ns = [] then d else Max (set ns))"
proof (cases ns)
  case Nil
  then show ?thesis by (simp add: py_max_def)
next
  case (Cons x r)
  have "foldl max x r = fold max r x"
    by (simp add: foldl_conv_fold max.commute)
  moreover have "Max (set (x # r)) = fold max r x"
    by (rule Max.set_eq_fold)
  ultimately show ?thesis
    using Cons by (simp add: py_max_def)
qed

subsection \<open>No write on an error reply\<close>

lemma saved_not_error: "\<not> is_error_string ''Resume saved successfully.''"
  by (simp add: is_error_string_def startswith_def sq_def)

lemma removed_not_error: "\<not> is_error_string (bullet_removed r)"
  by (simp add: is_error_string_def startswith_def sq_def bullet_removed_def)

lemma unchanged_same: "unchanged_on_error (r, store) store"
  by (simp add: unchanged_on_error_def split: sum.splits)

lemma unchanged_saved: "unchanged_on_error (save_resume data store) store"
  by (simp add: unchanged_on_error_def save_resume_ok saved_not_error)

lemma update_summary_unchanged: "unchanged_on_error (update_summary t store) store"
  by (simp add: update_summary_def Let_def unchanged_same unchanged_saved)

lemma update_experience_unchanged: "unchanged_on_error (update_experience i c r d store) store"
  by (simp add: update_experience_def Let_def unchanged_same unchanged_saved
      split: option.splits)

lemma add_experience_unchanged: "unchanged_on_error (add_experience c r d b store) store"
  by (simp add: add_experience_def Let_def unchanged_same save_resume_ok split: sum.splits)
     (simp add: unchanged_on_error_def is_error_string_def startswith_def sq_def)

lemma remove_experience_unchanged: "unchanged_on_error (remove_experience i store) store"
  by (simp add: remove_experience_def Let_def unchanged_same unchanged_saved)

lemma add_bullet_unchanged: "unchanged_on_error (add_bullet i b store) store"
  by (simp add: add_bullet_def Let_def unchanged_same unchanged_saved split: option.splits)

lemma update_bullet_unchanged: "unchanged_on_error (update_bullet i k b store) store"
  by (simp add: update_bullet_def Let_def unchanged_same unchanged_saved split: option.splits)

lemma remove_bullet_unchanged: "unchanged_on_error (remove_bullet i k store) store"
  by (simp add: remove_bullet_def Let_def unchanged_same save_resume_ok split: option.splits)
     (simp add: unchanged_on_error_def removed_not_error)

lemma add_skill_unchanged: "unchanged_on_error (add_skill s store) store"
  by (simp add: add_skill_def Let_def unchanged_same unchanged_saved)

lemma remove_skill_unchanged: "unchanged_on_error (remove_skill s store) store"
  by (simp add: remove_skill_def Let_def unchanged_same unchanged_saved)

lemma add_project_unchanged: "unchanged_on_error (add_project n d store) store"
  by (simp add: add_project_def Let_def unchanged_same save_resume_ok split: sum.splits)
     (simp add: unchanged_on_error_def is_error_string_def startswith_def sq_def)

lemma update_project_unchanged: "unchanged_on_error (update_project i n d store) store"
  by (simp add: update_project_def Let_def unchanged_same unchanged_saved split: option.splits)

lemma remove_project_unchanged: "unchanged_on_error (remove_project i store) store"
  by (simp add: remove_project_def Let_def unchanged_same unchanged_saved)

lemma add_education_unchanged: "unchanged_on_error (add_education g n y store) store"
  by (simp add: add_education_def Let_def unchanged_same save_resume_ok split: sum.splits)
     (simp add: unchanged_on_error_def is_error_string_def startswith_def sq_def)

lemma update_education_unchanged: "unchanged_on_error (update_education i g n y store) store"
  by (simp add: update_education_def Let_def unchanged_same unchanged_saved
      split: option.splits)

lemma remove_education_unchanged: "unchanged_on_error (remove_education i store) store"
  by (simp add: remove_education_def Let_def unchanged_same unchanged_saved)

text \<open>
  C1. Whenever a mutating tool replies with an error string (a missing id, an empty
  input, a bullet index out of range, a duplicate skill), the store after the call is the
  store before it: no error path writes.
\<close>

theorem error_reply_leaves_file_unchanged:
  "unchanged_on_error (update_summary new_summary store) store
   \<and> unchanged_on_error (update_experience experience_id company' role' dates' store) store
   \<and> unchanged_on_error (add_experience company'' role'' dates'' bullets' store) store
   \<and> unchanged_on_error (remove_experience experience_id store) store
   \<and> unchanged_on_error (add_bullet experience_id bullet store) store
   \<and> unchanged_on_error (update_bullet experience_id bullet_index bullet store) store
   \<and> unchanged_on_error (remove_bullet experience_id bullet_index store) store
   \<and> unchanged_on_error (add_skill skill store) store
   \<and> unchanged_on_error (remove_skill skill store) store
   \<and> unchanged_on_error (add_project name'' description'' store) store
   \<and> unchanged_on_error (update_project project_id name' description' store) store
   \<and> unchanged_on_error (remove_project project_id store) store
   \<and> unchanged_on_error (add_education degree'' institution'' year'' store) store
   \<and> unchanged_on_error (update_education education_id degree' institution' year' store) store
   \<and> unchanged_on_error (remove_education education_id store) store"
  by (simp only: update_summary_unchanged update_experience_unchanged
      add_experience_unchanged remove_experience_unchanged add_bullet_unchanged
      update_bullet_unchanged remove_bullet_unchanged add_skill_unchanged
      remove_skill_unchanged add_project_unchanged update_project_unchanged
      remove_project_unchanged add_education_unchanged update_education_unchanged
      remove_education_unchanged simp_thms)

theorem error_reply_leaves_file_unchanged_witness:
  "fst (remove_bullet ''exp_1'' 5 sample_resume)
     = Inr ''Error: Bullet index 5 out of range. Experience has 3 bullets.''
   \<and> is_error_string ''Error: Bullet index 5 out of range. Experience has 3 bullets.''
   \<and> snd (remove_bullet ''exp_1'' 5 sample_resume) = sample_resume
   \<and> fst (add_skill ''Python'' sample_resume)
     = Inr (''Skill '' @ sq @ ''Python'' @ sq @ '' already exists.'')
   \<and> is_error_string (''Skill '' @ sq @ ''Python'' @ sq @ '' already exists.'')
   \<and> snd (add_skill ''Python'' sample_resume) = sample_resume
   \<and> fst (update_summary ''   '' sample_resume) = Inr ''Error: Summary cannot be empty.''
   \<and> is_error_string ''Error: Summary cannot be empty.''
   \<and> snd (update_summary ''   '' sample_resume) = sample_resume"
proof -
  have reply: "fst (remove_bullet ''exp_1'' 5 sample_resume)
     = Inr ''Error: Bullet index 5 out of range. Experience has 3 bullets.''"
    "fst (add_skill ''Python'' sample_resume)
     = Inr (''Skill '' @ sq @ ''Python'' @ sq @ '' already exists.'')"
    "fst (update_summary ''   '' sample_resume) = Inr ''Error: Summary cannot be empty.''"
    by code_simp+
  have err: "is_error_string ''Error: Bullet index 5 out of range. Experience has 3 bullets.''"
    "is_error_string (''Skill '' @ sq @ ''Python'' @ sq @ '' already exists.'')"
    "is_error_string ''Error: Summary cannot be empty.''"
    by code_simp+
  have "unchanged_on_error (remove_bullet ''exp_1'' 5 sample_resume) sample_resume"
    "unchanged_on_error (add_skill ''Python'' sample_resume) sample_resume"
    "unchanged_on_error (update_summary ''   '' sample_resume) sample_resume"
    using error_reply_leaves_file_unchanged
      [where experience_id = "''exp_1''" and bullet_index = 5 and store = sample_resume
         and skill = "''Python''" and new_summary = "''   ''"]
    by simp_all
  with reply err have "snd (remove_bullet ''exp_1'' 5 sample_resume) = sample_resume"
    "snd (add_skill ''Python'' sample_resume) = sample_resume"
    "snd (update_summary ''   '' sample_resume) = sample_resume"
    by (simp_all add: unchanged_on_error_def)
  with reply err show ?thesis
    by simp
qed

subsection \<open>Generated ids\<close>

lemma existing_ids_iff:
  "existing_ids p ids = Inr ns \<longleftrightarrow> numeric_suffixes p ids ns"
  unfolding numeric_suffixes_def
proof (induction ids arbitrary: ns)
  case Nil
  then show ?case by auto
next
  case (Cons i rest)
  show ?case
  proof (cases "startswith i p")
    case False
    then show ?thesis using Cons.IH by simp
  next
    case True
    show ?thesis
    proof (cases "id_number i")
      case (Inl e)
      then show ?thesis using True by (auto simp: map_eq_Cons_conv)
    next
      case (Inr n)
      then show ?thesis using True
        by (auto simp: Cons.IH [symmetric] Cons_eq_map_conv split: sum.splits)
    qed
  qed
qed

lemma new_id_eq: "p @ str_int (py_max ns 0 + 1) = spec_next_id p ns"
  by (simp add: spec_next_id_def py_max_Max)

lemma strip_Nil: "strip [] = []"
  by (simp add: strip_def)

lemma add_experience_result:
  assumes "numeric_suffixes ''exp_'' (map exp_id (experiences store)) ns"
  shows "add_experience c r d b store =
     (Inr (''Experience added successfully with ID: '' @ spec_next_id ''exp_'' ns),
      store\<lparr>experiences :=
        \<lparr>exp_id = spec_next_id ''exp_'' ns, company = c, role = r, dates = d,
         bullets = (case b of None \<Rightarrow> [] | Some x \<Rightarrow> x)\<rparr> # experiences store\<rparr>)"
proof -
  have "existing_ids ''exp_'' (map exp_id (experiences store)) = Inr ns"
    using assms by (simp add: existing_ids_iff)
  then show ?thesis
    unfolding add_experience_def Let_def load_resume_def save_resume_ok
    by (simp add: new_id_eq [of "''exp_''", simplified])
qed

lemma add_project_result:
  assumes "numeric_suffixes ''proj_'' (map proj_id (projects store)) ns"
    and "strip n \<noteq> []" and "strip d \<noteq> []"
  shows "add_project n d store =
     (Inr (''Project added successfully with ID: '' @ spec_next_id ''proj_'' ns),
      store\<lparr>projects := projects store @
        [\<lparr>proj_id = spec_next_id ''proj_'' ns, name = strip n, description = strip d\<rparr>]\<rparr>)"
proof -
  have "existing_ids ''proj_'' (map proj_id (projects store)) = Inr ns"
    using assms(1) by (simp add: existing_ids_iff)
  moreover have "n \<noteq> []" "d \<noteq> []"
    using assms(2,3) strip_Nil by auto
  ultimately show ?thesis
    unfolding add_project_def Let_def load_resume_def save_resume_ok
    using assms(2,3) by (simp add: new_id_eq [of "''proj_''", simplified])
qed

lemma add_education_result:
  assumes "numeric_suffixes ''edu_'' (map edu_id (education store)) ns"
    and "strip g \<noteq> []" and "strip n \<noteq> []" and "strip y \<noteq> []"
  shows "add_education g n y store =
     (Inr (''Education added successfully with ID: '' @ spec_next_id ''edu_'' ns),
      store\<lparr>education := education store @
        [\<lparr>edu_id = spec_next_id ''edu_'' ns, degree = strip g, institution = strip n,
          year = strip y\<rparr>]\<rparr>)"
proof -
  have "existing_ids ''edu_'' (map edu_id (education store)) = Inr ns"
    using assms(1) by (simp add: existing_ids_iff)
  moreover have "g \<noteq> []" "n \<noteq> []" "y \<noteq> []"
    using assms(2,3,4) strip_Nil by auto
  ultimately show ?thesis
    unfolding add_education_def Let_def load_resume_def save_resume_ok
    using assms(2,3,4) by (simp add: new_id_eq [of "''edu_''", simplified])
qed

text \<open>Printing an integer and reading it back: an id written as the prefix and a decimal
  number has that number as its numeric suffix.\<close>

lemma str_nat_small: "n < 10 \<Longrightarrow> str_nat n = [char_of (48 + n)]"
  by (subst str_nat.simps) simp

lemma str_nat_large:
  "\<not> n < 10 \<Longrightarrow> str_nat n = str_nat (n div 10) @ [char_of (48 + n mod 10)]"
  by (subst str_nat.simps) simp

lemma is_digit_char_of: "k < 10 \<Longrightarrow> is_digit (char_of (48 + (k::nat)))"
  by (simp add: is_digit_def)

lemma digit_val_char_of: "k < 10 \<Longrightarrow> digit_val (char_of (48 + (k::nat))) = k"
  by (simp add: digit_val_def)

lemma str_nat_digits: "list_all is_digit (str_nat n)"
proof (induction n rule: str_nat.induct)
  case (1 n)
  show ?case
  proof (cases "n < 10")
    case True
    then show ?thesis
      by (simp add: str_nat_small is_digit_char_of)
  next
    case False
    with 1 show ?thesis
      by (simp add: str_nat_large is_digit_char_of)
  qed
qed

lemma str_nat_nonempty: "str_nat n \<noteq> []"
  by (cases "n < 10") (simp_all add: str_nat_small str_nat_large)

lemma digit_not_underscore: "is_digit c \<Longrightarrow> c \<noteq> CHR ''_''"
  by (auto simp: is_digit_def)

lemma digits_ok_all: "list_all is_digit u \<Longrightarrow> u \<noteq> [] \<Longrightarrow> digits_ok u"
proof (induction u rule: digits_ok.induct)
  case 1
  then show ?case by simp
next
  case (2 c)
  then show ?case by simp
next
  case (3 c d r)
  from 3 have "d \<noteq> CHR ''_''"
    by (simp add: digit_not_underscore)
  with 3 show ?case by simp
qed

lemma digits_val_digits:
  "list_all is_digit u \<Longrightarrow> digits_val u = foldl (\<lambda>a c. 10 * a + digit_val c) 0 u"
proof -
  assume "list_all is_digit u"
  then have "filter (\<lambda>c. c \<noteq> CHR ''_'') u = u"
    by (induction u) (auto simp: digit_not_underscore)
  then show ?thesis
    by (simp add: digits_val_def)
qed

lemma digits_val_str_nat: "digits_val (str_nat n) = n"
proof (induction n rule: str_nat.induct)
  case (1 n)
  show ?case
  proof (cases "n < 10")
    case True
    then show ?thesis
      using digits_val_digits [OF str_nat_digits, of n]
      by (simp add: str_nat_small digit_val_char_of)
  next
    case False
    have "digits_val (str_nat n)
        = 10 * foldl (\<lambda>a c. 10 * a + digit_val c) 0 (str_nat (n div 10)) + n mod 10"
      using digits_val_digits [OF str_nat_digits, of n] False
      by (simp add: str_nat_large digit_val_char_of)
    also have "foldl (\<lambda>a c. 10 * a + digit_val c) 0 (str_nat (n div 10)) = n div 10"
      using digits_val_digits [OF str_nat_digits, of "n div 10"] 1 False by simp
    finally show ?thesis by simp
  qed
qed

lemma digit_not_int_space: "is_digit c \<Longrightarrow> \<not> is_int_space c"
  by (auto simp: is_digit_def is_int_space_def)

lemma dropWhile_hd: "u \<noteq> [] \<Longrightarrow> \<not> P (hd u) \<Longrightarrow> dropWhile P u = u"
  by (cases u) simp_all

lemma int_strip_id:
  assumes "u \<noteq> []" "\<not> is_int_space (hd u)" "\<not> is_int_space (last u)"
  shows "rev (dropWhile is_int_space (rev (dropWhile is_int_space u))) = u"
proof -
  have "dropWhile is_int_space u = u"
    using assms by (simp add: dropWhile_hd)
  moreover have "dropWhile is_int_space (rev u) = rev u"
    using assms by (intro dropWhile_hd) (simp_all add: hd_rev)
  ultimately show ?thesis by simp
qed

lemma str_nat_hd_last: "is_digit (hd (str_nat n)) \<and> is_digit (last (str_nat n))"
  using str_nat_digits [of n] str_nat_nonempty [of n]
  by (auto simp: list_all_iff)

lemma py_int_str_nat: "py_int (str_nat n) = Inr (int n)"
proof -
  let ?u = "str_nat n"
  have ne: "?u \<noteq> []" by (rule str_nat_nonempty)
  have h: "is_digit (hd ?u)" "is_digit (last ?u)"
    using str_nat_hd_last by auto
  have s: "rev (dropWhile is_int_space (rev (dropWhile is_int_space ?u))) = ?u"
    using ne h by (intro int_strip_id) (simp_all add: digit_not_int_space)
  have "hd ?u \<noteq> CHR ''-''" "hd ?u \<noteq> CHR ''+''"
    using h(1) by (auto simp: is_digit_def)
  then show ?thesis
    unfolding py_int_def s Let_def
    using ne by (simp add: digits_ok_all str_nat_digits digits_val_str_nat)
qed

lemma py_int_minus_str_nat: "py_int (CHR ''-'' # str_nat n) = Inr (- int n)"
proof -
  let ?u = "CHR ''-'' # str_nat n"
  have ne: "str_nat n \<noteq> []" by (rule str_nat_nonempty)
  have h: "\<not> is_int_space (last (str_nat n))"
    using str_nat_hd_last digit_not_int_space by auto
  have m: "\<not> is_int_space CHR ''-''"
    by (simp add: is_int_space_def)
  have s: "rev (dropWhile is_int_space (rev (dropWhile is_int_space ?u))) = ?u"
    using ne h m by (intro int_strip_id) simp_all
  show ?thesis
    unfolding py_int_def s Let_def
    by (simp add: digits_ok_all str_nat_digits digits_val_str_nat ne)
qed

lemma py_int_str_int: "py_int (str_int n) = Inr n"
  by (cases "n < 0") (simp_all add: str_int_def py_int_str_nat py_int_minus_str_nat)

lemma py_split_nonempty: "py_split sep s \<noteq> []"
  by (induction s) auto

lemma py_split_no_sep: "sep \<notin> set s \<Longrightarrow> py_split sep s = [s]"
  by (induction s) auto

lemma str_nat_no_underscore: "CHR ''_'' \<notin> set (str_nat n)"
  using str_nat_digits [of n] digit_not_underscore by (auto simp: list_all_iff)

lemma str_int_no_underscore: "CHR ''_'' \<notin> set (str_int n)"
  by (simp add: str_int_def str_nat_no_underscore)

lemma id_number_canonical:
  "id_number (''exp_'' @ str_int n) = Inr n"
  "id_number (''proj_'' @ str_int n) = Inr n"
  "id_number (''edu_'' @ str_int n) = Inr n"
  by (simp_all add: id_number_def py_split_no_sep str_int_no_underscore py_int_str_int)

lemma numeric_suffixes_canonical:
  "numeric_suffixes ''exp_'' (map (\<lambda>n. ''exp_'' @ str_int n) ns) ns"
  "numeric_suffixes ''proj_'' (map (\<lambda>n. ''proj_'' @ str_int n) ns) ns"
  "numeric_suffixes ''edu_'' (map (\<lambda>n. ''edu_'' @ str_int n) ns) ns"
  by (induction ns)
    (simp_all add: numeric_suffixes_def startswith_def id_number_canonical [simplified])

text \<open>
  C2. For \<^verbatim>\<open>add_experience\<close>, \<^verbatim>\<open>add_project\<close> and \<^verbatim>\<open>add_education\<close>: when \<open>ns\<close> are
  the numeric suffixes of the ids of the collection that start with the section's prefix,
  the add reports and stores the id made of the prefix and one plus the largest of \<open>ns\<close>,
  and of the prefix and 1 when no id matches. (The two add tools that check their
  arguments need them non-blank.) Ids written as the prefix and a decimal number have
  exactly these numbers as their suffixes.
\<close>

theorem new_id_is_max_suffix_plus_one:
  "(numeric_suffixes ''exp_'' (map exp_id (experiences store)) ns_exp \<longrightarrow>
      fst (add_experience company' role' dates' bullets' store)
        = Inr (''Experience added successfully with ID: '' @ spec_next_id ''exp_'' ns_exp)
      \<and> exp_id (hd (experiences (snd (add_experience company' role' dates' bullets' store))))
        = spec_next_id ''exp_'' ns_exp)
   \<and> (numeric_suffixes ''proj_'' (map proj_id (projects store)) ns_proj
        \<and> strip name' \<noteq> [] \<and> strip description' \<noteq> [] \<longrightarrow>
      fst (add_project name' description' store)
        = Inr (''Project added successfully with ID: '' @ spec_next_id ''proj_'' ns_proj)
      \<and> proj_id (last (projects (snd (add_project name' description' store))))
        = spec_next_id ''proj_'' ns_proj)
   \<and> (numeric_suffixes ''edu_'' (map edu_id (education store)) ns_edu
        \<and> strip degree' \<noteq> [] \<and> strip institution' \<noteq> [] \<and> strip year' \<noteq> [] \<longrightarrow>
      fst (add_education degree' institution' year' store)
        = Inr (''Education added successfully with ID: '' @ spec_next_id ''edu_'' ns_edu)
      \<and> edu_id (last (education (snd (add_education degree' institution' year' store))))
        = spec_next_id ''edu_'' ns_edu)
   \<and> numeric_suffixes ''exp_'' (map (\<lambda>n. ''exp_'' @ str_int n) ms) ms
   \<and> numeric_suffixes ''proj_'' (map (\<lambda>n. ''proj_'' @ str_int n) ms) ms
   \<and> numeric_suffixes ''edu_'' (map (\<lambda>n. ''edu_'' @ str_int n) ms) ms"
  by (simp add: add_experience_result [of store ns_exp] add_project_result [of store ns_proj]
      add_education_result [of store ns_edu] numeric_suffixes_canonical [simplified])

theorem new_id_is_max_suffix_plus_one_witness:
  "numeric_suffixes ''exp_'' (map exp_id (experiences sample_resume)) [1, 3]
   \<and> fst (add_experience ''Globex'' ''Lead'' ''2023'' None sample_resume)
       = Inr ''Experience added successfully with ID: exp_4''
   \<and> numeric_suffixes ''proj_'' (map proj_id (projects sample_resume)) [1]
   \<and> strip ''Atlas'' \<noteq> [] \<and> strip ''A map'' \<noteq> []
   \<and> fst (add_project ''Atlas'' ''A map'' sample_resume)
       = Inr ''Project added successfully with ID: proj_2''
   \<and> numeric_suffixes ''edu_'' (map edu_id (education sample_resume)) []
   \<and> strip ''BSc'' \<noteq> [] \<and> strip ''MIT'' \<noteq> [] \<and> strip ''2018'' \<noteq> []
   \<and> fst (add_education ''BSc'' ''MIT'' ''2018'' sample_resume)
       = Inr ''Education added successfully with ID: edu_1''"
proof -
  have h: "numeric_suffixes ''exp_'' (map exp_id (experiences sample_resume)) [1, 3]"
    "numeric_suffixes ''proj_'' (map proj_id (projects sample_resume)) [1]"
    "numeric_suffixes ''edu_'' (map edu_id (education sample_resume)) []"
    "strip ''Atlas'' \<noteq> []" "strip ''A map'' \<noteq> []"
    "strip ''BSc'' \<noteq> []" "strip ''MIT'' \<noteq> []" "strip ''2018'' \<noteq> []"
    by code_simp+
  have n: "spec_next_id ''exp_'' [1, 3] = ''exp_4''" "spec_next_id ''proj_'' [1] = ''proj_2''"
    "spec_next_id ''edu_'' [] = ''edu_1''"
    by code_simp+
  from h new_id_is_max_suffix_plus_one
    [where store = sample_resume and ns_exp = "[1, 3]" and ns_proj = "[1]" and ns_edu = "[]"
       and company' = "''Globex''" and role' = "''Lead''" and dates' = "''2023''"
       and bullets' = None and name' = "''Atlas''" and description' = "''A map''"
       and degree' = "''BSc''" and institution' = "''MIT''" and year' = "''2018''"]
  have "fst (add_experience ''Globex'' ''Lead'' ''2023'' None sample_resume)
       = Inr (''Experience added successfully with ID: '' @ spec_next_id ''exp_'' [1, 3])"
    "fst (add_project ''Atlas'' ''A map'' sample_resume)
       = Inr (''Project added successfully with ID: '' @ spec_next_id ''proj_'' [1])"
    "fst (add_education ''BSc'' ''MIT'' ''2018'' sample_resume)
       = Inr (''Education added successfully with ID: '' @ spec_next_id ''edu_'' [])"
    by blast+
  with h show ?thesis
    unfolding n by simp
qed

subsection \<open>What the validator checks\<close>

lemma as_str_ok: "(as_str j \<noteq> None) = is_string j"
  by (simp add: as_str_def is_string_def split: json.splits)

lemma required_str_ok: "(required_str kvs k \<noteq> None) = has_string kvs k"
  by (simp add: required_str_def has_string_def as_str_ok del: not_None_eq split: option.splits)

lemma those_ok: "(those (map f xs) \<noteq> None) = list_all (\<lambda>x. f x \<noteq> None) xs"
  by (induction xs) (auto simp del: not_None_eq split: option.splits)

lemma default_list_ok:
  "(default_list f kvs k \<noteq> None) = absent_or_list (\<lambda>x. f x \<noteq> None) kvs k"
  by (simp add: default_list_def absent_or_list_def those_ok del: not_None_eq
      split: option.splits json.splits)

lemma bind_ok: "(Option.bind m f \<noteq> None) = (m \<noteq> None \<and> f (the m) \<noteq> None)"
  by (cases m) simp_all

lemma Experience_ok: "(Experience_validate j \<noteq> None) = Experience_shape j"
  by (cases j)
    (simp_all add: Experience_validate_def Experience_shape_def bind_ok required_str_ok
      default_list_ok as_str_ok del: not_None_eq)

lemma Project_ok: "(Project_validate j \<noteq> None) = Project_shape j"
  by (cases j)
    (simp_all add: Project_validate_def Project_shape_def bind_ok required_str_ok
      del: not_None_eq)

lemma Education_ok: "(Education_validate j \<noteq> None) = Education_shape j"
  by (cases j)
    (simp_all add: Education_validate_def Education_shape_def bind_ok required_str_ok
      del: not_None_eq)

lemma Resume_ok: "(Resume_validate j \<noteq> None) = Resume_shape j"
  by (cases j)
    (simp_all add: Resume_validate_def Resume_shape_def bind_ok required_str_ok
      default_list_ok as_str_ok Experience_ok Project_ok Education_ok del: not_None_eq)

lemma keeps_same: "keeps_summary (r, store) store"
  by (simp add: keeps_summary_def)

lemma keeps_saved: "summary data = summary store \<Longrightarrow> keeps_summary (save_resume data store) store"
  by (simp add: keeps_summary_def save_resume_ok)

lemma update_summary_keeps: "keeps_summary (update_summary t store) store"
  by (simp add: update_summary_def Let_def keeps_summary_def save_resume_ok)

lemma update_experience_keeps: "keeps_summary (update_experience i c r d store) store"
  by (simp add: update_experience_def Let_def load_resume_def keeps_same keeps_saved
      split: option.splits)

lemma add_experience_keeps: "keeps_summary (add_experience c r d b store) store"
  by (simp add: add_experience_def Let_def load_resume_def keeps_summary_def save_resume_ok
      split: sum.splits)

lemma remove_experience_keeps: "keeps_summary (remove_experience i store) store"
  by (simp add: remove_experience_def Let_def load_resume_def keeps_same keeps_saved)

lemma add_bullet_keeps: "keeps_summary (add_bullet i b store) store"
  by (simp add: add_bullet_def Let_def load_resume_def keeps_same keeps_saved
      split: option.splits)

lemma update_bullet_keeps: "keeps_summary (update_bullet i k b store) store"
  by (simp add: update_bullet_def Let_def load_resume_def keeps_same keeps_saved
      split: option.splits)

lemma remove_bullet_keeps: "keeps_summary (remove_bullet i k store) store"
  by (simp add: remove_bullet_def Let_def load_resume_def keeps_summary_def save_resume_ok
      split: option.splits)

lemma add_skill_keeps: "keeps_summary (add_skill s store) store"
  by (simp add: add_skill_def Let_def load_resume_def keeps_same keeps_saved)

lemma remove_skill_keeps: "keeps_summary (remove_skill s store) store"
  by (simp add: remove_skill_def Let_def load_resume_def keeps_same keeps_saved)

lemma add_project_keeps: "keeps_summary (add_project n d store) store"
  by (simp add: add_project_def Let_def load_resume_def keeps_summary_def save_resume_ok
      split: sum.splits)

lemma update_project_keeps: "keeps_summary (update_project i n d store) store"
  by (simp add: update_project_def Let_def load_resume_def keeps_same keeps_saved
      split: option.splits)

lemma remove_project_keeps: "keeps_summary (remove_project i store) store"
  by (simp add: remove_project_def Let_def load_resume_def keeps_same keeps_saved)

lemma add_education_keeps: "keeps_summary (add_education g n y store) store"
  by (simp add: add_education_def Let_def load_resume_def keeps_summary_def save_resume_ok
      split: sum.splits)

lemma update_education_keeps: "keeps_summary (update_education i g n y store) store"
  by (simp add: update_education_def Let_def load_resume_def keeps_same keeps_saved
      split: option.splits)

lemma remove_education_keeps: "keeps_summary (remove_education i store) store"
  by (simp add: remove_education_def Let_def load_resume_def keeps_same keeps_saved)

lemma save_json_rejects: "\<not> Resume_shape j \<Longrightarrow> save_json j store = (Inl ValidationError, store)"
  using Resume_ok [of j] by (simp add: save_json_def)

lemma save_json_accepts:
  "Resume_shape j \<Longrightarrow>
     fst (save_json j store) = Inr ''Resume saved successfully.''
     \<and> Resume_validate j = Some (snd (save_json j store))"
  using Resume_ok [of j] by (auto simp: save_json_def)

lemma save_resume_json: "save_resume data store = save_json (Resume_json data) store"
  by (simp add: save_json_def save_resume_ok Resume_roundtrip)

lemma add_experience_typed_bullets:
  "add_experience c r d b store
     = add_experience_any_bullets c r d (map_option (map JStr) b) store"
  by (cases b; cases "existing_ids ''exp_'' (map exp_id (experiences store))")
    (simp_all add: add_experience_def add_experience_any_bullets_def Let_def load_resume_def
      save_resume_json Resume_json_def Experience_json_def)

lemma add_experience_bad_bullets:
  assumes "numeric_suffixes ''exp_'' (map exp_id (experiences store)) ns"
    and "\<not> list_all is_string b"
  shows "add_experience_any_bullets c r d (Some b) store = (Inl ValidationError, store)"
proof -
  have ids: "existing_ids ''exp_'' (map exp_id (experiences store)) = Inr ns"
    using assms(1) by (simp add: existing_ids_iff)
  have "\<not> Experience_shape (JObj [(''id'', JStr i), (''company'', JStr c),
             (''role'', JStr r), (''dates'', JStr d), (''bullets'', JArr b)])" for i
    using assms(2) by (simp add: Experience_shape_def absent_or_list_def has_string_def)
  then have "\<not> Resume_shape (JObj [(''summary'', JStr s),
          (''experiences'', JArr (JObj [(''id'', JStr i), (''company'', JStr c),
             (''role'', JStr r), (''dates'', JStr d), (''bullets'', JArr b)] # es)),
          (''skills'', sk), (''projects'', pj), (''education'', ed)])" for i s es sk pj ed
    by (simp add: Resume_shape_def absent_or_list_def)
  then show ?thesis
    unfolding add_experience_any_bullets_def Let_def load_resume_def ids
    by (simp add: save_json_rejects)
qed

text \<open>
  C3, as amended. The validator accepts a JSON value exactly when it has the declared
  shape: the required fields present, strings where strings are declared, lists of valid
  entities where lists are declared. It does not ask a string to be non-empty.
  \<^verbatim>\<open>_save_resume\<close> given a dictionary without that shape raises the validation error
  and leaves the store as it was; given a dictionary with that shape it reports the save
  and the store becomes what the validator read. So \<^verbatim>\<open>add_experience\<close> given a bullet
  that is not a string raises and writes nothing. No tool turns a non-empty summary into
  an empty one.
\<close>

theorem validator_checks_fields_and_types:
  "(Resume_validate j \<noteq> None) = Resume_shape j
   \<and> (\<not> Resume_shape j \<longrightarrow> save_json j store = (Inl ValidationError, store))
   \<and> (Resume_shape j \<longrightarrow>
        fst (save_json j store) = Inr ''Resume saved successfully.''
        \<and> Resume_validate j = Some (snd (save_json j store)))
   \<and> save_resume data store = save_json (Resume_json data) store
   \<and> add_experience company'' role'' dates'' bullets' store
       = add_experience_any_bullets company'' role'' dates''
           (map_option (map JStr) bullets') store
   \<and> (numeric_suffixes ''exp_'' (map exp_id (experiences store)) ns
        \<and> \<not> list_all is_string any_bullets \<longrightarrow>
        add_experience_any_bullets company'' role'' dates'' (Some any_bullets) store
          = (Inl ValidationError, store))
   \<and> keeps_summary (update_summary new_summary store) store
   \<and> keeps_summary (update_experience experience_id company' role' dates' store) store
   \<and> keeps_summary (add_experience company'' role'' dates'' bullets' store) store
   \<and> keeps_summary (remove_experience experience_id store) store
   \<and> keeps_summary (add_bullet experience_id bullet store) store
   \<and> keeps_summary (update_bullet experience_id bullet_index bullet store) store
   \<and> keeps_summary (remove_bullet experience_id bullet_index store) store
   \<and> keeps_summary (add_skill skill store) store
   \<and> keeps_summary (remove_skill skill store) store
   \<and> keeps_summary (add_project name'' description'' store) store
   \<and> keeps_summary (update_project project_id name' description' store) store
   \<and> keeps_summary (remove_project project_id store) store
   \<and> keeps_summary (add_education degree'' institution'' year'' store) store
   \<and> keeps_summary (update_education education_id degree' institution' year' store) store
   \<and> keeps_summary (remove_education education_id store) store"
proof -
  have gate: "\<not> Resume_shape j \<longrightarrow> save_json j store = (Inl ValidationError, store)"
    "Resume_shape j \<longrightarrow>
        fst (save_json j store) = Inr ''Resume saved successfully.''
        \<and> Resume_validate j = Some (snd (save_json j store))"
    using save_json_rejects [of j store] save_json_accepts [of j store] by blast+
  have bad: "numeric_suffixes ''exp_'' (map exp_id (experiences store)) ns
        \<and> \<not> list_all is_string any_bullets \<longrightarrow>
        add_experience_any_bullets company'' role'' dates'' (Some any_bullets) store
          = (Inl ValidationError, store)"
    using add_experience_bad_bullets [of store ns any_bullets] by blast
  have typed: "add_experience company'' role'' dates'' bullets' store
       = add_experience_any_bullets company'' role'' dates''
           (map_option (map JStr) bullets') store"
    by (rule add_experience_typed_bullets)
  have link: "save_resume data store = save_json (Resume_json data) store"
    by (rule save_resume_json)
  have keep: "keeps_summary (update_summary new_summary store) store
   \<and> keeps_summary (update_experience experience_id company' role' dates' store) store
   \<and> keeps_summary (add_experience company'' role'' dates'' bullets' store) store
   \<and> keeps_summary (remove_experience experience_id store) store
   \<and> keeps_summary (add_bullet experience_id bullet store) store
   \<and> keeps_summary (update_bullet experience_id bullet_index bullet store) store
   \<and> keeps_summary (remove_bullet experience_id bullet_index store) store
   \<and> keeps_summary (add_skill skill store) store
   \<and> keeps_summary (remove_skill skill store) store
   \<and> keeps_summary (add_project name'' description'' store) store
   \<and> keeps_summary (update_project project_id name' description' store) store
   \<and> keeps_summary (remove_project project_id store) store
   \<and> keeps_summary (add_education degree'' institution'' year'' store) store
   \<and> keeps_summary (update_education education_id degree' institution' year' store) store
   \<and> keeps_summary (remove_education education_id store) store"
    by (simp only: update_summary_keeps update_experience_keeps
        add_experience_keeps remove_experience_keeps add_bullet_keeps update_bullet_keeps
        remove_bullet_keeps add_skill_keeps remove_skill_keeps add_project_keeps
        update_project_keeps remove_project_keeps add_education_keeps
        update_education_keeps remove_education_keeps simp_thms)
  from Resume_ok [of j] gate link typed bad keep show ?thesis
    by blast
qed

theorem validator_checks_fields_and_types_witness:
  "Resume_shape (JObj [(''summary'', JStr [])])
   \<and> Resume_validate (JObj [(''summary'', JStr [])]) \<noteq> None
   \<and> fst (save_json (JObj [(''summary'', JStr [])]) sample_resume)
       = Inr ''Resume saved successfully.''
   \<and> \<not> Resume_shape (JObj [(''skills'', JArr [])])
   \<and> Resume_validate (JObj [(''skills'', JArr [])]) = None
   \<and> save_json (JObj [(''skills'', JArr [])]) sample_resume
       = (Inl ValidationError, sample_resume)
   \<and> \<not> Resume_shape (JObj [(''summary'', JStr ''Engineer''), (''skills'', JStr ''Python'')])
   \<and> save_json (JObj [(''summary'', JStr ''Engineer''), (''skills'', JStr ''Python'')])
         sample_resume
       = (Inl ValidationError, sample_resume)
   \<and> numeric_suffixes ''exp_'' (map exp_id (experiences sample_resume)) [1, 3]
   \<and> \<not> list_all is_string [JNum 1]
   \<and> add_experience_any_bullets ''Globex'' ''Lead'' ''2023'' (Some [JNum 1]) sample_resume
       = (Inl ValidationError, sample_resume)
   \<and> summary sample_resume \<noteq> []
   \<and> summary (snd (update_summary ''   '' sample_resume)) \<noteq> []
   \<and> summary (snd (update_summary '' Staff engineer '' sample_resume)) \<noteq> []"
proof -
  have s: "Resume_shape (JObj [(''summary'', JStr [])])"
    "\<not> Resume_shape (JObj [(''skills'', JArr [])])"
    "\<not> Resume_shape (JObj [(''summary'', JStr ''Engineer''), (''skills'', JStr ''Python'')])"
    "numeric_suffixes ''exp_'' (map exp_id (experiences sample_resume)) [1, 3]"
    "\<not> list_all is_string [JNum 1]"
    "summary sample_resume \<noteq> []"
    by code_simp+
  note t = validator_checks_fields_and_types [where store = sample_resume]
  have a: "Resume_validate (JObj [(''summary'', JStr [])]) \<noteq> None"
    "fst (save_json (JObj [(''summary'', JStr [])]) sample_resume)
       = Inr ''Resume saved successfully.''"
    using s(1) t [where j = "JObj [(''summary'', JStr [])]"] by simp_all
  have b: "Resume_validate (JObj [(''skills'', JArr [])]) = None"
    "save_json (JObj [(''skills'', JArr [])]) sample_resume
       = (Inl ValidationError, sample_resume)"
    using s(2) t [where j = "JObj [(''skills'', JArr [])]"] by simp_all
  have c: "save_json (JObj [(''summary'', JStr ''Engineer''), (''skills'', JStr ''Python'')])
         sample_resume
       = (Inl ValidationError, sample_resume)"
    using s(3)
      t [where j = "JObj [(''summary'', JStr ''Engineer''), (''skills'', JStr ''Python'')]"]
    by simp
  have d: "add_experience_any_bullets ''Globex'' ''Lead'' ''2023'' (Some [JNum 1]) sample_resume
       = (Inl ValidationError, sample_resume)"
    using s(4,5)
      t [where ns = "[1, 3]" and any_bullets = "[JNum 1]" and company'' = "''Globex''"
           and role'' = "''Lead''" and dates'' = "''2023''"]
    by simp
  have e: "summary (snd (update_summary ''   '' sample_resume)) \<noteq> []"
    "summary (snd (update_summary '' Staff engineer '' sample_resume)) \<noteq> []"
    using s(6) t [where new_summary = "''   ''"] t [where new_summary = "'' Staff engineer ''"]
    by (simp_all add: keeps_summary_def)
  from s a b c d e show ?thesis
    by (intro conjI)
qed

text \<open>
  C3 as stated fails: the validator accepts a document whose summary is the empty
  string, and \<^verbatim>\<open>add_experience\<close>, which checks none of its arguments, persists an
  experience whose company is the empty string.
\<close>

theorem validator_accepts_empty_strings:
  "Resume_validate (JObj [(''summary'', JStr '''')])
     = Some \<lparr>summary = '''', experiences = [], skills = [], projects = [], education = []\<rparr>
   \<and> fst (add_experience '''' ''Developer'' ''2023'' None sample_resume)
     = Inr ''Experience added successfully with ID: exp_4''
   \<and> company (hd (experiences (snd (add_experience '''' ''Developer'' ''2023'' None sample_resume))))
     = ''''"
  by code_simp

subsection \<open>Updates and adds: what is stored\<close>

text \<open>
  C4 (the code departs from the claim). The update tools test the argument before they
  trim it: \<^verbatim>\<open>update_project\<close> given a name of three spaces stores the empty string
  as the name and saves, although \<^verbatim>\<open>add_project\<close> and \<^verbatim>\<open>update_summary\<close> reject
  such a text. \<^verbatim>\<open>update_experience\<close> stores its arguments untrimmed, a text of two
  spaces included, although \<^verbatim>\<open>update_project\<close> and \<^verbatim>\<open>update_education\<close> trim
  theirs.
\<close>

theorem update_accepts_blank_and_untrimmed:
  "update_project ''proj_1'' (Some ''   '') None sample_resume
     = (Inr ''Resume saved successfully.'',
        sample_resume\<lparr>projects :=
          [\<lparr>proj_id = ''proj_1'', name = '''', description = ''A resume editor''\<rparr>]\<rparr>)
   \<and> company (hd (experiences (snd
        (update_experience ''exp_1'' (Some '' Acme Corp '') None None sample_resume))))
     = '' Acme Corp ''
   \<and> company (hd (experiences (snd
        (update_experience ''exp_1'' (Some ''  '') None None sample_resume))))
     = ''  ''"
  by code_simp

text \<open>
  C5 (the code departs from the claim). \<^verbatim>\<open>add_experience\<close> stores company, role, dates
  and bullets exactly as given, and the entity read back by the returned id carries the
  surrounding whitespace. The other add tools trim: see \<open>add_project_result\<close>,
  \<open>add_education_result\<close>, \<open>add_skill_new\<close>.
\<close>

theorem add_experience_stores_untrimmed:
  "add_experience '' Globex '' ''Lead '' '' 2023'' (Some ['' Shipped v2 '']) sample_resume
     = (Inr ''Experience added successfully with ID: exp_4'',
        sample_resume\<lparr>experiences :=
          \<lparr>exp_id = ''exp_4'', company = '' Globex '', role = ''Lead '', dates = '' 2023'',
           bullets = ['' Shipped v2 '']\<rparr> # experiences sample_resume\<rparr>)
   \<and> get_experience_by_id ''exp_4''
        (snd (add_experience '' Globex '' ''Lead '' '' 2023'' (Some ['' Shipped v2 ''])
           sample_resume))
     = json_dumps (Experience_json
        \<lparr>exp_id = ''exp_4'', company = '' Globex '', role = ''Lead '', dates = '' 2023'',
         bullets = ['' Shipped v2 '']\<rparr>)"
  by code_simp

subsection \<open>Where a new entry goes\<close>






subsection \<open>Bullet indices\<close>

lemma remove_bullet_at:
  assumes "first_index (\<lambda>e. exp_id e = experience_id) (experiences store) = Some k"
  shows "remove_bullet experience_id i store =
     (let exp = experiences store ! k; bs = bullets exp in
      if 0 \<le> i \<and> i < int (length bs)
      then (Inr (bullet_removed (bs ! nat i)),
            store\<lparr>experiences := (experiences store)
              [k := exp\<lparr>bullets := take (nat i) bs @ drop (Suc (nat i)) bs\<rparr>]\<rparr>)
      else (Inr (out_of_range i (length bs)), store))"
  using assms by (simp add: remove_bullet_def load_resume_def Let_def save_resume_ok)

lemma update_bullet_at:
  assumes "first_index (\<lambda>e. exp_id e = experience_id) (experiences store) = Some k"
  shows "update_bullet experience_id i t store =
     (let exp = experiences store ! k; bs = bullets exp in
      if strip t = [] then (Inr ''Error: Bullet text cannot be empty.'', store)
      else if 0 \<le> i \<and> i < int (length bs)
      then (Inr ''Resume saved successfully.'',
            store\<lparr>experiences := (experiences store)
              [k := exp\<lparr>bullets := bs[nat i := strip t]\<rparr>]\<rparr>)
      else (Inr (out_of_range i (length bs)), store))"
proof (cases "strip t = []")
  case True
  then show ?thesis
    by (simp add: update_bullet_def Let_def)
next
  case False
  then have "t \<noteq> []"
    using strip_Nil by auto
  with False assms show ?thesis
    by (simp add: update_bullet_def load_resume_def Let_def save_resume_ok)
qed

text \<open>
  C7, as amended. Let the id resolve to the \<open>k\<close>-th experience (the first with that id)
  and let \<open>bs\<close> be its bullets. For an index outside \<open>0 \<le> i < length bs\<close>,
  \<^verbatim>\<open>remove_bullet\<close>, and \<^verbatim>\<open>update_bullet\<close> given a text that is not blank, return the
  out-of-range error that names \<open>length bs\<close> and leave the store unchanged; for an index
  inside the range they succeed and change that one bullet list. \<^verbatim>\<open>update_bullet\<close>
  given a blank text returns the empty-text error whatever the index.
\<close>

theorem bullet_index_checked:
  assumes "first_index (\<lambda>e. exp_id e = experience_id) (experiences store) = Some k"
    and "bs = bullets (experiences store ! k)"
  shows
    "(\<not> (0 \<le> i \<and> i < int (length bs)) \<longrightarrow>
        remove_bullet experience_id i store
          = (Inr (''Error: Bullet index '' @ str_int i @ '' out of range. Experience has ''
                  @ str_int (int (length bs)) @ '' bullets.''), store)
        \<and> (strip new_bullet \<noteq> [] \<longrightarrow>
            update_bullet experience_id i new_bullet store
              = (Inr (''Error: Bullet index '' @ str_int i @ '' out of range. Experience has ''
                      @ str_int (int (length bs)) @ '' bullets.''), store)))
     \<and> (0 \<le> i \<and> i < int (length bs) \<longrightarrow>
        remove_bullet experience_id i store
          = (Inr (bullet_removed (bs ! nat i)),
             store\<lparr>experiences := (experiences store)
               [k := (experiences store ! k)
                  \<lparr>bullets := take (nat i) bs @ drop (Suc (nat i)) bs\<rparr>]\<rparr>)
        \<and> (strip new_bullet \<noteq> [] \<longrightarrow>
            update_bullet experience_id i new_bullet store
              = (Inr ''Resume saved successfully.'',
                 store\<lparr>experiences := (experiences store)
                   [k := (experiences store ! k)\<lparr>bullets := bs[nat i := strip new_bullet]\<rparr>]\<rparr>)))
     \<and> (strip new_bullet = [] \<longrightarrow>
        update_bullet experience_id i new_bullet store
          = (Inr ''Error: Bullet text cannot be empty.'', store))"
  using assms(2)
  by (simp add: remove_bullet_at [OF assms(1)] update_bullet_at [OF assms(1)] Let_def
      out_of_range_def)

theorem bullet_index_checked_witness:
  "first_index (\<lambda>e. exp_id e = ''exp_1'') (experiences sample_resume) = Some 0
   \<and> remove_bullet ''exp_1'' 5 sample_resume
       = (Inr ''Error: Bullet index 5 out of range. Experience has 3 bullets.'', sample_resume)
   \<and> strip ''Mentored two interns'' \<noteq> []
   \<and> update_bullet ''exp_1'' 5 ''Mentored two interns'' sample_resume
       = (Inr ''Error: Bullet index 5 out of range. Experience has 3 bullets.'', sample_resume)
   \<and> fst (remove_bullet ''exp_1'' 1 sample_resume) = Inr (bullet_removed ''Led a team of four'')
   \<and> fst (update_bullet ''exp_1'' 1 ''Mentored two interns'' sample_resume)
       = Inr ''Resume saved successfully.''
   \<and> strip '' '' = []
   \<and> update_bullet ''exp_1'' 1 '' '' sample_resume
       = (Inr ''Error: Bullet text cannot be empty.'', sample_resume)"
proof -
  have k: "first_index (\<lambda>e. exp_id e = ''exp_1'') (experiences sample_resume) = Some 0"
    by code_simp
  have b: "[''Built the billing service'', ''Led a team of four'', ''Cut costs'']
      = bullets (experiences sample_resume ! 0)"
    by code_simp
  have s: "strip ''Mentored two interns'' \<noteq> []" "strip '' '' = []"
    by code_simp+
  have m: "str_int 5 = ''5''" "str_int 3 = ''3''"
    by code_simp+
  note t = bullet_index_checked [OF k b]
  have "remove_bullet ''exp_1'' 5 sample_resume
       = (Inr ''Error: Bullet index 5 out of range. Experience has 3 bullets.'', sample_resume)"
    "update_bullet ''exp_1'' 5 ''Mentored two interns'' sample_resume
       = (Inr ''Error: Bullet index 5 out of range. Experience has 3 bullets.'', sample_resume)"
    using s t [of 5 "''Mentored two interns''"] by (simp_all add: m)
  moreover have "fst (remove_bullet ''exp_1'' 1 sample_resume)
       = Inr (bullet_removed ''Led a team of four'')"
    "fst (update_bullet ''exp_1'' 1 ''Mentored two interns'' sample_resume)
       = Inr ''Resume saved successfully.''"
    using s t [of 1 "''Mentored two interns''"] by simp_all
  moreover have "update_bullet ''exp_1'' 1 '' '' sample_resume
       = (Inr ''Error: Bullet text cannot be empty.'', sample_resume)"
    using s t [of 1 "'' ''"] by simp
  ultimately show ?thesis
    using k s by simp
qed

text \<open>
  C7 as stated fails: index 5 is out of range for the three bullets of \<^verbatim>\<open>exp_1\<close>, yet
  \<^verbatim>\<open>update_bullet\<close> given the empty text returns the empty-text error, not the
  out-of-range error.
\<close>

theorem bullet_index_counterexample:
  "exp_id (experiences sample_resume ! 0) = ''exp_1''
   \<and> length (bullets (experiences sample_resume ! 0)) = 3
   \<and> \<not> (0 \<le> (5::int) \<and> (5::int) < 3)
   \<and> update_bullet ''exp_1'' 5 '''' sample_resume
       = (Inr ''Error: Bullet text cannot be empty.'', sample_resume)"
  by code_simp

subsection \<open>Skills\<close>

lemma add_skill_new:
  assumes "strip skill \<noteq> []" and "strip skill \<notin> set (skills store)"
  shows "add_skill skill store
     = (Inr ''Resume saved successfully.'', store\<lparr>skills := skills store @ [strip skill]\<rparr>)"
proof -
  have "skill \<noteq> []" using assms(1) strip_Nil by auto
  then show ?thesis
    using assms by (simp add: add_skill_def load_resume_def Let_def save_resume_ok)
qed

lemma add_skill_present:
  assumes "strip skill \<noteq> []" and "strip skill \<in> set (skills store)"
  shows "add_skill skill store
     = (Inr (''Skill '' @ sq @ strip skill @ sq @ '' already exists.''), store)"
proof -
  have "skill \<noteq> []" using assms(1) strip_Nil by auto
  then show ?thesis
    using assms by (simp add: add_skill_def load_resume_def Let_def)
qed

lemma count_list_absent: "x \<notin> set xs \<Longrightarrow> count_list xs x = 0"
  by (induction xs) auto

lemma count_list_present: "x \<in> set xs \<Longrightarrow> 0 < count_list xs x"
  by (induction xs) auto

lemma add_skill_then_present:
  assumes "strip skill \<noteq> []"
  shows "strip skill \<in> set (skills (snd (add_skill skill store)))"
  using assms add_skill_new [of skill store] add_skill_present [of skill store]
  by (cases "strip skill \<in> set (skills store)") simp_all

lemma add_skill_count:
  assumes "strip skill \<noteq> []" and "count_list (skills store) (strip skill) \<le> 1"
  shows "count_list (skills (snd (add_skill skill store))) (strip skill) = 1"
proof (cases "strip skill \<in> set (skills store)")
  case True
  then show ?thesis
    using assms count_list_present [OF True] by (simp add: add_skill_present)
next
  case False
  then show ?thesis
    using assms by (simp add: add_skill_new count_list_absent)
qed

text \<open>
  C8, as amended. For a skill that is not blank and a store that lists its trimmed text
  at most once: after \<^verbatim>\<open>add_skill\<close>, a second \<^verbatim>\<open>add_skill\<close> with the same text replies
  that the skill already exists, changes nothing, and the list holds the trimmed text
  exactly once. \<^verbatim>\<open>add_skill\<close> of a non-blank skill whose trimmed text is in the list
  (compared as strings, so with case) replies that it already exists and leaves the store
  unchanged. \<^verbatim>\<open>remove_skill\<close> of a skill whose trimmed text is not in the list replies
  with the not-found error and leaves the store unchanged.
\<close>

theorem add_skill_twice_one_copy:
  "(strip skill \<noteq> [] \<and> count_list (skills store) (strip skill) \<le> 1 \<longrightarrow>
      add_skill skill (snd (add_skill skill store))
        = (Inr (''Skill '' @ sq @ strip skill @ sq @ '' already exists.''),
           snd (add_skill skill store))
      \<and> count_list (skills (snd (add_skill skill (snd (add_skill skill store)))))
           (strip skill) = 1)
   \<and> (strip skill \<noteq> [] \<and> strip skill \<in> set (skills store) \<longrightarrow>
      add_skill skill store
        = (Inr (''Skill '' @ sq @ strip skill @ sq @ '' already exists.''), store))
   \<and> (strip skill \<notin> set (skills store) \<longrightarrow>
      remove_skill skill store
        = (Inr (''Error: Skill '' @ sq @ strip skill @ sq @ '' not found.''), store))"
  by (simp add: add_skill_present add_skill_then_present add_skill_count remove_skill_def
      load_resume_def)

theorem add_skill_twice_one_copy_witness:
  "strip '' Rust '' = ''Rust'' \<and> count_list (skills sample_resume) ''Rust'' \<le> 1
   \<and> fst (add_skill '' Rust '' (snd (add_skill '' Rust '' sample_resume)))
       = Inr (''Skill '' @ sq @ ''Rust'' @ sq @ '' already exists.'')
   \<and> count_list (skills (snd (add_skill '' Rust '' (snd (add_skill '' Rust '' sample_resume)))))
       ''Rust'' = 1
   \<and> strip ''Python'' = ''Python'' \<and> ''Python'' \<in> set (skills sample_resume)
   \<and> add_skill ''Python'' sample_resume
       = (Inr (''Skill '' @ sq @ ''Python'' @ sq @ '' already exists.''), sample_resume)
   \<and> ''Rust'' \<notin> set (skills sample_resume)
   \<and> remove_skill '' Rust '' sample_resume
       = (Inr (''Error: Skill '' @ sq @ ''Rust'' @ sq @ '' not found.''), sample_resume)"
proof -
  have s: "strip '' Rust '' = ''Rust''" "strip ''Python'' = ''Python''"
    by code_simp+
  have c: "count_list (skills sample_resume) ''Rust'' \<le> 1"
    "''Python'' \<in> set (skills sample_resume)" "''Rust'' \<notin> set (skills sample_resume)"
    by code_simp+
  note t = add_skill_twice_one_copy [where skill = "'' Rust ''" and store = sample_resume]
  have a: "add_skill '' Rust '' (snd (add_skill '' Rust '' sample_resume))
       = (Inr (''Skill '' @ sq @ ''Rust'' @ sq @ '' already exists.''),
          snd (add_skill '' Rust '' sample_resume))"
    using c t unfolding s by blast
  have b: "count_list (skills (snd (add_skill '' Rust '' (snd (add_skill '' Rust '' sample_resume)))))
       ''Rust'' = 1"
    using c t unfolding s by blast
  have d: "remove_skill '' Rust '' sample_resume
       = (Inr (''Error: Skill '' @ sq @ ''Rust'' @ sq @ '' not found.''), sample_resume)"
    using c t unfolding s by blast
  have e: "add_skill ''Python'' sample_resume
       = (Inr (''Skill '' @ sq @ ''Python'' @ sq @ '' already exists.''), sample_resume)"
    using c add_skill_twice_one_copy [where skill = "''Python''" and store = sample_resume]
    unfolding s by simp
  have f: "fst (add_skill '' Rust '' (snd (add_skill '' Rust '' sample_resume)))
       = Inr (''Skill '' @ sq @ ''Rust'' @ sq @ '' already exists.'')"
    unfolding a by simp
  from s c f b e d show ?thesis
    by blast
qed

text \<open>
  C8 as stated fails on a blank skill, where the second call replies with the empty-skill
  error and the list holds no copy, and on a store that already lists the skill twice
  (the validator accepts it), where the list still holds two copies after both calls.
\<close>

theorem add_skill_twice_counterexample:
  "fst (add_skill ''  '' (snd (add_skill ''  '' sample_resume)))
     = Inr ''Error: Skill cannot be empty.''
   \<and> count_list (skills (snd (add_skill ''  '' (snd (add_skill ''  '' sample_resume)))))
       (strip ''  '') = 0
   \<and> Resume_validate (Resume_json duplicate_skills_resume) = Some duplicate_skills_resume
   \<and> skills duplicate_skills_resume = [''Go'', ''Go'']
   \<and> fst (add_skill ''Go'' (snd (add_skill ''Go'' duplicate_skills_resume)))
     = Inr (''Skill '' @ sq @ ''Go'' @ sq @ '' already exists.'')
   \<and> skills (snd (add_skill ''Go'' (snd (add_skill ''Go'' duplicate_skills_resume))))
     = [''Go'', ''Go'']"
  by code_simp

subsection \<open>Lookups\<close>

lemma first_index_absent: "key \<notin> f ` set xs \<Longrightarrow> first_index (\<lambda>x. f x = key) xs = None"
  by (auto simp: first_index_None)

text \<open>
  C9. \<^verbatim>\<open>get_section\<close> with a name outside the five sections, and
  \<^verbatim>\<open>get_experience_by_id\<close>, \<^verbatim>\<open>get_project_by_id\<close>, \<^verbatim>\<open>get_education_by_id\<close> with an id
  that no entity of the collection has, return the error text of the source. The read
  tools are total functions into strings: on a store of the modelled shape they have no
  raising path.
\<close>

theorem unknown_lookup_returns_error:
  "(section_name \<notin> set [''summary'', ''experiences'', ''skills'', ''projects'', ''education'']
      \<longrightarrow> get_section section_name store
        = ''Error: Invalid section '' @ sq @ section_name @ sq
          @ ''. Valid sections: ['' @ sq @ ''summary'' @ sq @ '', '' @ sq @ ''experiences'' @ sq
          @ '', '' @ sq @ ''skills'' @ sq @ '', '' @ sq @ ''projects'' @ sq
          @ '', '' @ sq @ ''education'' @ sq @ '']'')
   \<and> (key \<notin> exp_id ` set (experiences store)
      \<longrightarrow> get_experience_by_id key store
        = ''Error: Experience with ID '' @ sq @ key @ sq @ '' not found.'')
   \<and> (key \<notin> proj_id ` set (projects store)
      \<longrightarrow> get_project_by_id key store
        = ''Error: Project with ID '' @ sq @ key @ sq @ '' not found.'')
   \<and> (key \<notin> edu_id ` set (education store)
      \<longrightarrow> get_education_by_id key store
        = ''Error: Education with ID '' @ sq @ key @ sq @ '' not found.'')"
  by (simp add: get_section_def valid_sections_def valid_sections_repr_def Let_def
      get_experience_by_id_def get_project_by_id_def get_education_by_id_def
      first_index_absent not_found_def load_resume_def)

theorem unknown_lookup_returns_error_witness:
  "''hobbies'' \<notin> set [''summary'', ''experiences'', ''skills'', ''projects'', ''education'']
   \<and> get_section ''hobbies'' sample_resume
       = ''Error: Invalid section '' @ sq @ ''hobbies'' @ sq
         @ ''. Valid sections: ['' @ sq @ ''summary'' @ sq @ '', '' @ sq @ ''experiences'' @ sq
         @ '', '' @ sq @ ''skills'' @ sq @ '', '' @ sq @ ''projects'' @ sq
         @ '', '' @ sq @ ''education'' @ sq @ '']''
   \<and> ''exp_2'' \<notin> exp_id ` set (experiences sample_resume)
   \<and> get_experience_by_id ''exp_2'' sample_resume
       = ''Error: Experience with ID '' @ sq @ ''exp_2'' @ sq @ '' not found.''
   \<and> ''exp_2'' \<notin> proj_id ` set (projects sample_resume)
   \<and> get_project_by_id ''exp_2'' sample_resume
       = ''Error: Project with ID '' @ sq @ ''exp_2'' @ sq @ '' not found.''
   \<and> ''exp_2'' \<notin> edu_id ` set (education sample_resume)
   \<and> get_education_by_id ''exp_2'' sample_resume
       = ''Error: Education with ID '' @ sq @ ''exp_2'' @ sq @ '' not found.''"
proof -
  have h: "''hobbies'' \<notin> set [''summary'', ''experiences'', ''skills'', ''projects'', ''education'']"
    "''exp_2'' \<notin> exp_id ` set (experiences sample_resume)"
    "''exp_2'' \<notin> proj_id ` set (projects sample_resume)"
    "''exp_2'' \<notin> edu_id ` set (education sample_resume)"
    by code_simp+
  from h unknown_lookup_returns_error
    [where section_name = "''hobbies''" and key = "''exp_2''" and store = sample_resume]
  show ?thesis
    by blast
qed

lemma remove_skill_present:
  "strip skill \<in> set (skills store) \<Longrightarrow>
     remove_skill skill store
       = (Inr ''Resume saved successfully.'',
          store\<lparr>skills := remove1 (strip skill) (skills store)\<rparr>)"
  by (simp add: remove_skill_def load_resume_def save_resume_ok)

lemma remove_skill_absent:
  "strip skill \<notin> set (skills store) \<Longrightarrow>
     remove_skill skill store
       = (Inr (''Error: Skill '' @ sq @ strip skill @ sq @ '' not found.''), store)"
  by (simp add: remove_skill_def load_resume_def)

text \<open>
  C10. \<^verbatim>\<open>remove_skill\<close> trims its argument and then looks the trimmed text up: when
  the trimmed text is in the list, its first occurrence is removed, the rest of the list
  stays as it was and the save is reported; when it is not, the reply is the not-found
  error naming the trimmed text and the store is unchanged. Hence whitespace put before
  and after a text changes neither the reply nor the store afterwards.
\<close>

theorem remove_skill_ignores_padding:
  "(list_all is_space before \<and> list_all is_space after \<longrightarrow>
      strip (before @ skill @ after) = strip skill
      \<and> remove_skill (before @ skill @ after) store = remove_skill skill store)
   \<and> (strip skill \<in> set (skills store) \<longrightarrow>
      remove_skill skill store
        = (Inr ''Resume saved successfully.'',
           store\<lparr>skills := remove1 (strip skill) (skills store)\<rparr>))
   \<and> (strip skill \<notin> set (skills store) \<longrightarrow>
      remove_skill skill store
        = (Inr (''Error: Skill '' @ sq @ strip skill @ sq @ '' not found.''), store))"
  by (simp add: remove_skill_present remove_skill_absent strip_pad)
     (simp add: remove_skill_def strip_pad)

theorem remove_skill_ignores_padding_witness:
  "list_all is_space ''  '' \<and> list_all is_space [CHR 0x09, CHR 0x0A]
   \<and> strip (''  '' @ ''Python'' @ [CHR 0x09, CHR 0x0A]) = ''Python''
   \<and> strip ''Python'' = ''Python''
   \<and> ''Python'' \<in> set (skills several_skills_resume)
   \<and> remove_skill (''  '' @ ''Python'' @ [CHR 0x09, CHR 0x0A]) several_skills_resume
       = remove_skill ''Python'' several_skills_resume
   \<and> fst (remove_skill (''  '' @ ''Python'' @ [CHR 0x09, CHR 0x0A]) several_skills_resume)
       = Inr ''Resume saved successfully.''
   \<and> skills (snd (remove_skill (''  '' @ ''Python'' @ [CHR 0x09, CHR 0x0A])
        several_skills_resume))
       = [''Go'', ''Rust'', ''Python'']
   \<and> strip ''Java'' = ''Java''
   \<and> ''Java'' \<notin> set (skills several_skills_resume)
   \<and> remove_skill (''  '' @ ''Java'' @ [CHR 0x09, CHR 0x0A]) several_skills_resume
       = (Inr (''Error: Skill '' @ sq @ ''Java'' @ sq @ '' not found.''), several_skills_resume)"
proof -
  have h: "list_all is_space ''  ''" "list_all is_space [CHR 0x09, CHR 0x0A]"
    by code_simp+
  have s: "strip ''Python'' = ''Python''" "strip ''Java'' = ''Java''"
    by code_simp+
  have m: "''Python'' \<in> set (skills several_skills_resume)"
    "''Java'' \<notin> set (skills several_skills_resume)"
    by code_simp+
  have r: "remove1 ''Python'' (skills several_skills_resume) = [''Go'', ''Rust'', ''Python'']"
    by code_simp
  note t = remove_skill_ignores_padding
    [where before = "''  ''" and after = "[CHR 0x09, CHR 0x0A]"
       and store = several_skills_resume]
  have p: "strip (''  '' @ ''Python'' @ [CHR 0x09, CHR 0x0A]) = strip ''Python''"
    "remove_skill (''  '' @ ''Python'' @ [CHR 0x09, CHR 0x0A]) several_skills_resume
       = remove_skill ''Python'' several_skills_resume"
    using h t [where skill = "''Python''"] by blast+
  have q: "remove_skill (''  '' @ ''Java'' @ [CHR 0x09, CHR 0x0A]) several_skills_resume
       = remove_skill ''Java'' several_skills_resume"
    using h t [where skill = "''Java''"] by blast
  have u: "remove_skill ''Python'' several_skills_resume
       = (Inr ''Resume saved successfully.'',
          several_skills_resume\<lparr>skills := remove1 ''Python'' (skills several_skills_resume)\<rparr>)"
    using m(1) t [where skill = "''Python''"] unfolding s by blast
  have v: "remove_skill ''Java'' several_skills_resume
       = (Inr (''Error: Skill '' @ sq @ ''Java'' @ sq @ '' not found.''), several_skills_resume)"
    using m(2) t [where skill = "''Java''"] unfolding s by blast
  have w: "fst (remove_skill (''  '' @ ''Python'' @ [CHR 0x09, CHR 0x0A]) several_skills_resume)
       = Inr ''Resume saved successfully.''"
    "skills (snd (remove_skill (''  '' @ ''Python'' @ [CHR 0x09, CHR 0x0A])
        several_skills_resume))
       = [''Go'', ''Rust'', ''Python'']"
    unfolding p(2) u by (simp_all add: r)
  have x: "strip (''  '' @ ''Python'' @ [CHR 0x09, CHR 0x0A]) = ''Python''"
    using p(1) s(1) by simp
  have y: "remove_skill (''  '' @ ''Java'' @ [CHR 0x09, CHR 0x0A]) several_skills_resume
       = (Inr (''Error: Skill '' @ sq @ ''Java'' @ sq @ '' not found.''), several_skills_resume)"
    unfolding q v by (rule refl)
  from h x s(1) m(1) p(2) w s(2) m(2) y show ?thesis
    by (intro conjI)
qed

end
